theory Spec2Isabelle
  imports Main
begin

section \<open>Identifiers, errors and response envelopes\<close>

text \<open>
  A document identifier is a 12-byte ObjectId. Its \<open>toString()\<close> is the 24-digit
  lower-case hexadecimal rendering, which is how the value is represented here.
  Path parameters arrive as strings: the driver's validity test accepts 24 hexadecimal
  digits of either case, and casting such a string (done by the ORM inside every query,
  and by \<open>new mongoose.Types.ObjectId(s)\<close>) reads the digits case-insensitively.
  \<open>castObjectId s = None\<close> stands for \<open>!mongoose.Types.ObjectId.isValid(s)\<close>. (The
  12-character form that some driver versions accept besides is not modelled.)
  \<open>req.user?._id\<close> is an \<open>objectId option\<close>, \<open>None\<close> when the request carries no user.
\<close>

datatype objectId = ObjectId (toHexString: string)

definition isHexDigit :: "char \<Rightarrow> bool" where
  "isHexDigit c = (c \<in> set ''0123456789abcdefABCDEF'')"

definition lowerHex :: "char \<Rightarrow> char" where
  "lowerHex c =
     (if c = CHR ''A'' then CHR ''a'' else if c = CHR ''B'' then CHR ''b''
      else if c = CHR ''C'' then CHR ''c'' else if c = CHR ''D'' then CHR ''d''
      else if c = CHR ''E'' then CHR ''e'' else if c = CHR ''F'' then CHR ''f''
      else c)"

definition isValid :: "string \<Rightarrow> bool" where
  "isValid s = (length s = 24 \<and> list_all isHexDigit s)"

definition castObjectId :: "string \<Rightarrow> objectId option" where
  "castObjectId s = (if isValid s then Some (ObjectId (map lowerHex s)) else None)"

text \<open>
  \<open>throw new ApiError(code, message)\<close> is \<open>Inl (ApiError code message)\<close>; any other
  exception that escapes a handler is \<open>Inl JsException\<close>. A handler that answers
  \<open>res.status(h).json(new ApiResponse(code, data, message))\<close> returns
  \<open>Inr (h, ApiResponse code data message)\<close>.
\<close>

datatype failure = ApiError nat string | JsException

datatype 'a apiResponse = ApiResponse (statusCode: nat) (data: 'a) (message: string)

type_synonym 'a reply = "failure + nat \<times> 'a apiResponse"

section \<open>Collections\<close>

text \<open>
  The model files are not part of the sources at hand; each record lists the fields the
  controllers read and write. A falsy string field (absent or empty) is \<open>[]\<close>.
  Timestamps are left out. \<open>duration\<close> is the number the media store reports, kept opaque;
  \<open>views\<close> holds the whole number the counter stands at.
\<close>

record video =
  video_id :: objectId
  title :: string
  description :: string
  videoFile :: string
  videoPublicId :: string
  thumbnail :: string
  thumbnailPublicId :: string
  duration :: nat
  views :: nat
  isPublished :: bool
  video_owner :: objectId

record comment =
  comment_id :: objectId
  content :: string
  comment_video :: objectId
  comment_owner :: objectId

record like =
  like_id :: objectId
  like_video :: "objectId option"
  like_comment :: "objectId option"
  likedBy :: objectId

record subscription =
  sub_id :: objectId
  subscriber :: objectId
  channel :: objectId

record user =
  user_id :: objectId
  username :: string
  email :: string
  fullName :: string
  avatar :: string
  password :: string

record db =
  videos :: "video list"
  comments :: "comment list"
  likes :: "like list"
  subscriptions :: "subscription list"
  users :: "user list"

text \<open>\<open>Model.deleteOne(q)\<close> removes the first document matching \<open>q\<close>, \<open>Model.deleteMany(q)\<close>
  all of them, \<open>Model.findOne(q)\<close> is \<open>find\<close>; \<open>updateOne\<close> rewrites the first match.\<close>

fun deleteOne :: "('a \<Rightarrow> bool) \<Rightarrow> 'a list \<Rightarrow> 'a list" where
  "deleteOne P [] = []"
| "deleteOne P (x # xs) = (if P x then xs else x # deleteOne P xs)"

definition deleteMany :: "('a \<Rightarrow> bool) \<Rightarrow> 'a list \<Rightarrow> 'a list" where
  "deleteMany P xs = filter (\<lambda>x. \<not> P x) xs"

fun updateOne :: "('a \<Rightarrow> bool) \<Rightarrow> ('a \<Rightarrow> 'a) \<Rightarrow> 'a list \<Rightarrow> 'a list" where
  "updateOne P f [] = []"
| "updateOne P f (x # xs) = (if P x then f x # xs else x # updateOne P f xs)"

section \<open>Like controller\<close>

definition toggleVideoLike ::
  "db \<Rightarrow> objectId option \<Rightarrow> string \<Rightarrow> objectId \<Rightarrow> bool reply \<times> db" where
  "toggleVideoLike d reqUser videoId newId =
     (if videoId = [] then (Inl (ApiError 400 ''Video ID is required''), d)
      else case castObjectId videoId of
        None \<Rightarrow> (Inl (ApiError 400 ''Invalid Video ID provided''), d)
      | Some vid \<Rightarrow>
        (case find (\<lambda>v. video_id v = vid) (videos d) of
           None \<Rightarrow> (Inl (ApiError 404 ''Video not found''), d)
         | Some v \<Rightarrow>
           (case reqUser of
              None \<Rightarrow> (Inl (ApiError 401 ''User not authenticated to like videos''), d)
            | Some userId \<Rightarrow>
              (case find (\<lambda>l. like_video l = Some vid \<and> likedBy l = userId) (likes d) of
                 Some existingLike \<Rightarrow>
                   (Inr (200, ApiResponse 200 False ''Video unliked successfully''),
                    d\<lparr>likes := deleteOne (\<lambda>l. like_id l = like_id existingLike) (likes d)\<rparr>)
               | None \<Rightarrow>
                   (Inr (200, ApiResponse 200 True ''Video liked successfully''),
                    d\<lparr>likes := likes d @
                       [\<lparr>like_id = newId, like_video = Some vid, like_comment = None,
                         likedBy = userId\<rparr>]\<rparr>)))))"

definition toggleCommentLike ::
  "db \<Rightarrow> objectId option \<Rightarrow> string \<Rightarrow> objectId \<Rightarrow> bool reply \<times> db" where
  "toggleCommentLike d reqUser commentId newId =
     (if commentId = [] then (Inl (ApiError 400 ''Comment ID is required''), d)
      else case castObjectId commentId of
        None \<Rightarrow> (Inl (ApiError 400 ''Invalid comment ID provided''), d)
      | Some cid \<Rightarrow>
        (case find (\<lambda>c. comment_id c = cid) (comments d) of
           None \<Rightarrow> (Inl (ApiError 404 ''Video not found''), d)
         | Some cm \<Rightarrow>
           (case reqUser of
              None \<Rightarrow> (Inl (ApiError 401 ''User not authenticated to like videos''), d)
            | Some userId \<Rightarrow>
              (case find (\<lambda>l. like_comment l = Some cid \<and> likedBy l = userId) (likes d) of
                 Some existingLike \<Rightarrow>
                   (Inr (200, ApiResponse 200 False ''comment unliked successfully''),
                    d\<lparr>likes := deleteOne (\<lambda>l. like_id l = like_id existingLike) (likes d)\<rparr>)
               | None \<Rightarrow>
                   (Inr (200, ApiResponse 200 True ''comment liked successfully''),
                    d\<lparr>likes := likes d @
                       [\<lparr>like_id = newId, like_video = Some (comment_video cm),
                         like_comment = Some cid, likedBy = userId\<rparr>]\<rparr>)))))"

text \<open>The summaries the aggregation pipelines project: a video with its owner's
  \<open>_id\<close>, \<open>username\<close>, \<open>fullName\<close> and \<open>avatar\<close> in place of the owner reference.\<close>

record owner_info =
  o_id :: objectId
  o_username :: string
  o_fullName :: string
  o_avatar :: string

record video_out =
  out_id :: objectId
  out_videoFile :: string
  out_thumbnail :: string
  out_title :: string
  out_description :: string
  out_duration :: nat
  out_views :: nat
  out_isPublished :: bool
  out_owner :: owner_info

definition ownerInfo :: "user \<Rightarrow> owner_info" where
  "ownerInfo u = \<lparr>o_id = user_id u, o_username = username u, o_fullName = fullName u,
                  o_avatar = avatar u\<rparr>"

definition videoOut :: "video \<Rightarrow> user \<Rightarrow> video_out" where
  "videoOut v u =
     \<lparr>out_id = video_id v, out_videoFile = videoFile v, out_thumbnail = thumbnail v,
      out_title = title v, out_description = description v, out_duration = duration v,
      out_views = views v, out_isPublished = isPublished v, out_owner = ownerInfo u\<rparr>"

text \<open>\<open>$lookup\<close> followed by \<open>$unwind\<close> (without \<open>preserveNullAndEmptyArrays\<close>) yields one
  output per matching foreign document, and none when there is no match.\<close>

definition lookupUnwind :: "('b \<Rightarrow> bool) \<Rightarrow> 'b list \<Rightarrow> 'b list" where
  "lookupUnwind P foreign = filter P foreign"

definition likedVideosPipeline :: "db \<Rightarrow> objectId \<Rightarrow> video_out list" where
  "likedVideosPipeline d userId =
     concat (map (\<lambda>l.
        concat (map (\<lambda>v. map (videoOut v)
                             (lookupUnwind (\<lambda>u. user_id u = video_owner v) (users d)))
                    (lookupUnwind (\<lambda>v. Some (video_id v) = like_video l) (videos d))))
        (filter (\<lambda>l. likedBy l = userId \<and> like_video l \<noteq> None) (likes d)))"

definition getLikedVideos :: "db \<Rightarrow> objectId option \<Rightarrow> video_out list reply" where
  "getLikedVideos d reqUser =
     (case reqUser of
        None \<Rightarrow> Inl (ApiError 401 ''User not authenticated or invalid user ID'')
      | Some userId \<Rightarrow>
         (let likedVideos = likedVideosPipeline d userId in
          if length likedVideos = 0
          then Inr (200, ApiResponse 200 [] ''User hasn't liked any videos'')
          else Inr (200, ApiResponse 200 likedVideos ''Liked videos fetched successfully'')))"

section \<open>Comment controller\<close>

text \<open>
  Strings are sequences of bytes, the UTF-8 encoding of the program's strings.
  \<open>String.prototype.trim\<close> removes, at both ends, the white space and line terminator
  code points of the language: U+0009 to U+000D, U+0020, U+00A0, U+1680, U+2000 to
  U+200A, U+2028, U+2029, U+202F, U+205F, U+3000 and U+FEFF, listed here by their
  encodings.
\<close>

definition whiteSpace :: "string list" where
  "whiteSpace =
     [[CHR 0x09], [CHR 0x0A], [CHR 0x0B], [CHR 0x0C], [CHR 0x0D], [CHR 0x20],
      [CHR 0xC2, CHR 0xA0], [CHR 0xE1, CHR 0x9A, CHR 0x80],
      [CHR 0xE2, CHR 0x80, CHR 0x80], [CHR 0xE2, CHR 0x80, CHR 0x81],
      [CHR 0xE2, CHR 0x80, CHR 0x82], [CHR 0xE2, CHR 0x80, CHR 0x83],
      [CHR 0xE2, CHR 0x80, CHR 0x84], [CHR 0xE2, CHR 0x80, CHR 0x85],
      [CHR 0xE2, CHR 0x80, CHR 0x86], [CHR 0xE2, CHR 0x80, CHR 0x87],
      [CHR 0xE2, CHR 0x80, CHR 0x88], [CHR 0xE2, CHR 0x80, CHR 0x89],
      [CHR 0xE2, CHR 0x80, CHR 0x8A], [CHR 0xE2, CHR 0x80, CHR 0xA8],
      [CHR 0xE2, CHR 0x80, CHR 0xA9], [CHR 0xE2, CHR 0x80, CHR 0xAF],
      [CHR 0xE2, CHR 0x81, CHR 0x9F], [CHR 0xE3, CHR 0x80, CHR 0x80],
      [CHR 0xEF, CHR 0xBB, CHR 0xBF]]"

function stripLeading :: "string list \<Rightarrow> string \<Rightarrow> string" where
  "stripLeading ws s =
     (case find (\<lambda>w. w \<noteq> [] \<and> take (length w) s = w) ws of
        None \<Rightarrow> s
      | Some w \<Rightarrow> stripLeading ws (drop (length w) s))"
  by pat_completeness auto
termination
proof (relation "measure (\<lambda>(ws, s). length s)")
  show "wf (measure (\<lambda>(ws, s). length s))" by simp
next
  fix ws :: "string list" and s w :: string
  assume "find (\<lambda>w. w \<noteq> [] \<and> take (length w) s = w) ws = Some w"
  then have w: "w \<noteq> []" and t: "take (length w) s = w"
    by (auto simp: find_Some_iff)
  have "length (take (length w) s) = length w" using t by simp
  then have "length w \<le> length s" by simp
  moreover have "0 < length w" using w by simp
  ultimately have "length s - length w < length s" by arith
  then show "((ws, drop (length w) s), (ws, s)) \<in> measure (\<lambda>(ws, s). length s)"
    by simp
qed

definition trim :: "string \<Rightarrow> string" where
  "trim s = rev (stripLeading (map rev whiteSpace) (rev (stripLeading whiteSpace s)))"

record video_brief =
  vb_id :: objectId
  vb_title :: string
  vb_thumbnail :: string

record comment_out =
  co_id :: objectId
  co_content :: string
  co_owner :: "owner_info option"
  co_video :: "video_brief option"

definition populateComment :: "db \<Rightarrow> objectId \<Rightarrow> comment_out option" where
  "populateComment d cid =
     map_option (\<lambda>c.
        \<lparr>co_id = comment_id c, co_content = content c,
         co_owner = map_option ownerInfo (find (\<lambda>u. user_id u = comment_owner c) (users d)),
         co_video = map_option (\<lambda>v. \<lparr>vb_id = video_id v, vb_title = title v,
                                       vb_thumbnail = thumbnail v\<rparr>)
                      (find (\<lambda>v. video_id v = comment_video c) (videos d))\<rparr>)
       (find (\<lambda>c. comment_id c = cid) (comments d))"

definition addComment ::
  "db \<Rightarrow> objectId option \<Rightarrow> string \<Rightarrow> string \<Rightarrow> objectId \<Rightarrow> comment_out option reply \<times> db" where
  "addComment d reqUser videoId content' newId =
     (if content' = [] \<or> trim content' = [] then (Inl (ApiError 400 ''Comment content is required''), d)
      else if videoId = [] then (Inl (ApiError 400 ''Video ID is required''), d)
      else case castObjectId videoId of
        None \<Rightarrow> (Inl (ApiError 400 ''Invalid Video ID''), d)
      | Some vid \<Rightarrow>
        (case reqUser of
           None \<Rightarrow> (Inl (ApiError 401 ''User not authenticated to like videos''), d)
         | Some userId \<Rightarrow>
           (case find (\<lambda>v. video_id v = vid) (videos d) of
              None \<Rightarrow> (Inl (ApiError 404 ''Video not found''), d)
            | Some v \<Rightarrow>
               (let d' = d\<lparr>comments := comments d @
                            [\<lparr>comment_id = newId, content = trim content', comment_video = vid,
                              comment_owner = userId\<rparr>]\<rparr>
                in (Inr (201, ApiResponse 201 (populateComment d' newId) ''Comment added successfully''),
                    d')))))"

definition updateComment ::
  "db \<Rightarrow> objectId option \<Rightarrow> string \<Rightarrow> string \<Rightarrow> comment_out option reply \<times> db" where
  "updateComment d reqUser commentId content' =
     (if content' = [] \<or> trim content' = [] then (Inl (ApiError 400 ''Comment content is required''), d)
      else if commentId = [] then (Inl (ApiError 400 ''Comment ID is required in parameters''), d)
      else case castObjectId commentId of
        None \<Rightarrow> (Inl (ApiError 400 ''Invalid Comment ID provided''), d)
      | Some cid \<Rightarrow>
        (case reqUser of
           None \<Rightarrow> (Inl (ApiError 401 ''User not authenticated to update comments''), d)
         | Some userId \<Rightarrow>
           (case find (\<lambda>c. comment_id c = cid) (comments d) of
              None \<Rightarrow> (Inl (ApiError 404 ''Comment not found''), d)
            | Some commentToUpdate \<Rightarrow>
               if toHexString (comment_owner commentToUpdate) \<noteq> toHexString userId
               then (Inl (ApiError 403 ''You are not authorized to update this comment''), d)
               else
                 (let d' = d\<lparr>comments := updateOne (\<lambda>c. comment_id c = cid)
                                              (\<lambda>c. c\<lparr>content := content'\<rparr>) (comments d)\<rparr>
                  in (Inr (200, ApiResponse 200 (populateComment d' cid) ''Comment updated successfully''),
                      d')))))"

definition deleteComment ::
  "db \<Rightarrow> objectId option \<Rightarrow> string \<Rightarrow> unit reply \<times> db" where
  "deleteComment d reqUser commentId =
     (if commentId = [] then (Inl (ApiError 400 ''Comment ID is required in parameters''), d)
      else case castObjectId commentId of
        None \<Rightarrow> (Inl (ApiError 400 ''Invalid Comment ID provided''), d)
      | Some cid \<Rightarrow>
        (case reqUser of
           None \<Rightarrow> (Inl (ApiError 401 ''User not authenticated to delete comments''), d)
         | Some userId \<Rightarrow>
           (case find (\<lambda>c. comment_id c = cid) (comments d) of
              None \<Rightarrow> (Inl (ApiError 404 ''Comment not found''), d)
            | Some commentToDelete \<Rightarrow>
               if toHexString (comment_owner commentToDelete) \<noteq> toHexString userId
               then (Inl (ApiError 403 ''You are not authorized to delete this comment''), d)
               else
                 (let d1 = d\<lparr>likes := deleteMany (\<lambda>l. like_comment l = Some cid) (likes d)\<rparr>;
                      deletedCount = (if list_ex (\<lambda>c. comment_id c = cid) (comments d1) then 1 else 0 :: nat);
                      d2 = d1\<lparr>comments := deleteOne (\<lambda>c. comment_id c = cid) (comments d1)\<rparr>
                  in if deletedCount = 0
                     then (Inl (ApiError 500
                       ''Something went wrong while deleting the comment, or comment was deleted concurrently.''), d2)
                     else (Inr (200, ApiResponse 200 () ''Comment deleted successfully''), d2)))))"

section \<open>Media store adapter\<close>

text \<open>
  The media store is an external service. What it answers to one upload is an input of
  the model: \<open>uploader_upload\<close> is what \<open>cloudinary.uploader.upload\<close> does (returns a
  response or throws) and \<open>tempFileExists\<close> says whether the temporary file is still on
  disk, since \<open>fs.unlinkSync\<close> in the adapter's \<open>catch\<close> block throws when it is not.
  The calls that reach the service are collected in a trace, in order.
\<close>

datatype media_call = UploadCall string | DestroyCall string string

datatype 'a outcome = Returns 'a | Throws

record upload_response =
  url :: string
  public_id :: string
  resp_duration :: nat

record upload_env =
  uploader_upload :: "upload_response outcome"
  tempFileExists :: bool

definition uploadOnCloudinary ::
  "string \<Rightarrow> upload_env \<Rightarrow> upload_response option outcome \<times> media_call list" where
  "uploadOnCloudinary localFilePath env =
     (if localFilePath = [] then (Returns None, [])
      else case uploader_upload env of
        Returns response \<Rightarrow> (Returns (Some response), [UploadCall localFilePath])
      | Throws \<Rightarrow>
         (if tempFileExists env then (Returns None, [UploadCall localFilePath])
          else (Throws, [UploadCall localFilePath])))"

definition deleteFromCloudinary :: "string \<Rightarrow> string \<Rightarrow> media_call list" where
  "deleteFromCloudinary publicId resourceType =
     (if publicId = [] then [] else [DestroyCall publicId resourceType])"

section \<open>Video controller\<close>

text \<open>
  The view counter is a number of the program, an IEEE double. Whole numbers below \<open>2^53\<close>
  are exact; from there on a sum is rounded to the nearest representable value, ties to
  the even one, so that adding 1 no longer gives the successor. \<open>toDouble\<close> is that
  rounding on whole numbers and \<open>incNumber\<close> what \<open>$inc: { views: 1 }\<close> stores and
  \<open>updatedVideo.views\<close> reads.
\<close>

fun bitLength :: "nat \<Rightarrow> nat" where
  "bitLength n = (if n = 0 then 0 else Suc (bitLength (n div 2)))"

definition toDouble :: "nat \<Rightarrow> nat" where
  "toDouble n =
     (if n < 2 ^ 53 then n
      else let k = bitLength n - 53; q = n div 2 ^ k; r = n mod 2 ^ k
           in if 2 * r < 2 ^ k \<or> (2 * r = 2 ^ k \<and> even q) then q * 2 ^ k else (q + 1) * 2 ^ k)"

definition incNumber :: "nat \<Rightarrow> nat" where
  "incNumber n = toDouble (n + 1)"

definition videoPipeline :: "db \<Rightarrow> objectId \<Rightarrow> video_out list" where
  "videoPipeline d vid =
     concat (map (\<lambda>v. map (videoOut v)
                          (lookupUnwind (\<lambda>u. user_id u = video_owner v) (users d)))
                 (filter (\<lambda>v. video_id v = vid) (videos d)))"

definition getVideoById :: "db \<Rightarrow> string \<Rightarrow> video_out reply \<times> db" where
  "getVideoById d videoId =
     (if videoId = [] then (Inl (ApiError 400 ''Video ID is required''), d)
      else case castObjectId videoId of
        None \<Rightarrow> (Inl (ApiError 400 ''Invalid Video ID''), d)
      | Some vid \<Rightarrow>
        (case videoPipeline d vid of
           [] \<Rightarrow> (Inl (ApiError 404 ''Video not found''), d)
         | foundVideo # _ \<Rightarrow>
           (case find (\<lambda>v. video_id v = vid) (videos d) of
              None \<Rightarrow> (Inl JsException, d)
            | Some v \<Rightarrow>
               (let updatedVideo = v\<lparr>views := incNumber (views v)\<rparr>;
                    d' = d\<lparr>videos := updateOne (\<lambda>v. video_id v = vid)
                                          (\<lambda>v. v\<lparr>views := incNumber (views v)\<rparr>) (videos d)\<rparr>
                in (Inr (200, ApiResponse 200 (foundVideo\<lparr>out_views := views updatedVideo\<rparr>)
                               ''Video fetched successfully''), d')))))"

record update_fields =
  uf_title :: "string option"
  uf_description :: "string option"
  uf_videoFile :: "string option"
  uf_videoPublicId :: "string option"
  uf_duration :: "nat option"
  uf_thumbnail :: "string option"
  uf_thumbnailPublicId :: "string option"

definition setFields :: "update_fields \<Rightarrow> video \<Rightarrow> video" where
  "setFields uf v =
     v\<lparr>title := (case uf_title uf of None \<Rightarrow> title v | Some x \<Rightarrow> x),
       description := (case uf_description uf of None \<Rightarrow> description v | Some x \<Rightarrow> x),
       videoFile := (case uf_videoFile uf of None \<Rightarrow> videoFile v | Some x \<Rightarrow> x),
       videoPublicId := (case uf_videoPublicId uf of None \<Rightarrow> videoPublicId v | Some x \<Rightarrow> x),
       duration := (case uf_duration uf of None \<Rightarrow> duration v | Some x \<Rightarrow> x),
       thumbnail := (case uf_thumbnail uf of None \<Rightarrow> thumbnail v | Some x \<Rightarrow> x),
       thumbnailPublicId := (case uf_thumbnailPublicId uf of None \<Rightarrow> thumbnailPublicId v | Some x \<Rightarrow> x)\<rparr>"

text \<open>Step 5 of \<open>updateVideo\<close>: the new video file. The upload sits in a \<open>try\<close> whose
  \<open>catch\<close> rethrows as a 500.\<close>

definition videoFileStep ::
  "video \<Rightarrow> string \<Rightarrow> upload_env \<Rightarrow> update_fields \<Rightarrow> (failure + update_fields) \<times> media_call list" where
  "videoFileStep v videoFileLocalPath env uf =
     (if videoFileLocalPath = [] then (Inr uf, [])
      else case uploadOnCloudinary videoFileLocalPath env of
        (Throws, t) \<Rightarrow>
          (Inl (ApiError 500 ''Failed to upload new video file due to an internal error.''), t)
      | (Returns None, t) \<Rightarrow>
          (Inl (ApiError 500 ''Error while uploading new video file to Cloudinary (no URL or public_id)''), t)
      | (Returns (Some newVideoFile), t) \<Rightarrow>
          if url newVideoFile = [] \<or> public_id newVideoFile = []
          then (Inl (ApiError 500 ''Error while uploading new video file to Cloudinary (no URL or public_id)''), t)
          else (Inr (uf\<lparr>uf_videoFile := Some (url newVideoFile),
                        uf_videoPublicId := Some (public_id newVideoFile),
                        uf_duration := Some (resp_duration newVideoFile)\<rparr>),
                t @ deleteFromCloudinary (videoPublicId v) ''video''))"

text \<open>Step 6: the new thumbnail. Here the upload is not wrapped, so an exception of the
  adapter escapes the handler as it is.\<close>

definition thumbnailStep ::
  "video \<Rightarrow> string \<Rightarrow> upload_env \<Rightarrow> update_fields \<Rightarrow> (failure + update_fields) \<times> media_call list" where
  "thumbnailStep v thumbnailLocalPath env uf =
     (if thumbnailLocalPath = [] then (Inr uf, [])
      else case uploadOnCloudinary thumbnailLocalPath env of
        (Throws, t) \<Rightarrow> (Inl JsException, t)
      | (Returns None, t) \<Rightarrow>
          (Inl (ApiError 500 ''Error while uploading new thumbnail to Cloudinary''), t)
      | (Returns (Some newThumbnail), t) \<Rightarrow>
          if url newThumbnail = [] \<or> public_id newThumbnail = []
          then (Inl (ApiError 500 ''Error while uploading new thumbnail to Cloudinary''), t)
          else (Inr (uf\<lparr>uf_thumbnail := Some (url newThumbnail),
                        uf_thumbnailPublicId := Some (public_id newThumbnail)\<rparr>),
                t @ deleteFromCloudinary (thumbnailPublicId v) ''image''))"

definition updateVideo ::
  "db \<Rightarrow> objectId option \<Rightarrow> string \<Rightarrow> string \<Rightarrow> string \<Rightarrow> string \<Rightarrow> string \<Rightarrow>
   upload_env \<Rightarrow> upload_env \<Rightarrow> video reply \<times> db \<times> media_call list" where
  "updateVideo d reqUser videoId title' description' videoFileLocalPath thumbnailLocalPath venv tenv =
     (if videoId = [] then (Inl (ApiError 400 ''Video ID is required''), d, [])
      else case castObjectId videoId of
        None \<Rightarrow> (Inl (ApiError 400 ''Invalid Video ID''), d, [])
      | Some vid \<Rightarrow>
        if title' = [] \<and> description' = [] \<and> videoFileLocalPath = [] \<and> thumbnailLocalPath = []
        then (Inl (ApiError 400
          ''At least one field (title, description, video, or thumbnail) is required to update.''), d, [])
        else
        (case find (\<lambda>v. video_id v = vid) (videos d) of
           None \<Rightarrow> (Inl (ApiError 404 ''Video not found''), d, [])
         | Some v \<Rightarrow>
           if map_option toHexString reqUser \<noteq> Some (toHexString (video_owner v))
           then (Inl (ApiError 403 ''You are not authorized to update this video''), d, [])
           else
             (let uf0 = \<lparr>uf_title = (if title' \<noteq> [] then Some title' else None),
                         uf_description = (if description' \<noteq> [] then Some description' else None),
                         uf_videoFile = None, uf_videoPublicId = None, uf_duration = None,
                         uf_thumbnail = None, uf_thumbnailPublicId = None\<rparr>
              in case videoFileStep v videoFileLocalPath venv uf0 of
                (Inl e, t1) \<Rightarrow> (Inl e, d, t1)
              | (Inr uf1, t1) \<Rightarrow>
                (case thumbnailStep v thumbnailLocalPath tenv uf1 of
                   (Inl e, t2) \<Rightarrow> (Inl e, d, t1 @ t2)
                 | (Inr updateFields, t2) \<Rightarrow>
                   (case find (\<lambda>v. video_id v = vid) (videos d) of
                      None \<Rightarrow> (Inl (ApiError 500
                        ''Something went wrong while updating the video. Video might have been deleted.''),
                        d, t1 @ t2)
                    | Some cur \<Rightarrow>
                       (Inr (200, ApiResponse 200 (setFields updateFields cur) ''Video updated successfully''),
                        d\<lparr>videos := updateOne (\<lambda>v. video_id v = vid) (setFields updateFields) (videos d)\<rparr>,
                        t1 @ t2))))))"

text \<open>\<open>deleteVideo\<close> answers with the result of \<open>Video.deleteOne\<close>, of which the
  \<open>deletedCount\<close> is kept.\<close>

definition deleteVideo ::
  "db \<Rightarrow> objectId option \<Rightarrow> string \<Rightarrow> nat reply \<times> db \<times> media_call list" where
  "deleteVideo d reqUser videoId =
     (if videoId = [] then (Inl (ApiError 400 ''Video ID is required''), d, [])
      else case castObjectId videoId of
        None \<Rightarrow> (Inl (ApiError 400 ''Invalid Video ID''), d, [])
      | Some vid \<Rightarrow>
        (case find (\<lambda>v. video_id v = vid) (videos d) of
           None \<Rightarrow> (Inl (ApiError 404 ''Video not found''), d, [])
         | Some videoToDelete \<Rightarrow>
           if map_option toHexString reqUser \<noteq> Some (toHexString (video_owner videoToDelete))
           then (Inl (ApiError 403 ''You are not authorized to delete this video''), d, [])
           else
             (let t = deleteFromCloudinary (videoPublicId videoToDelete) ''video'' @
                      deleteFromCloudinary (thumbnailPublicId videoToDelete) ''image'';
                  d1 = d\<lparr>likes := deleteMany (\<lambda>l. like_video l = Some vid) (likes d)\<rparr>;
                  d2 = d1\<lparr>comments := deleteMany (\<lambda>c. comment_video c = vid) (comments d1)\<rparr>;
                  deletedCount = (if list_ex (\<lambda>v. video_id v = vid) (videos d2) then 1 else 0 :: nat);
                  d3 = d2\<lparr>videos := deleteOne (\<lambda>v. video_id v = vid) (videos d2)\<rparr>
              in if deletedCount = 0
                 then (Inl (ApiError 500 ''Failed to delete video from database''), d3, t)
                 else (Inr (200, ApiResponse 200 deletedCount ''Video deleted successfully''), d3, t))))"

section \<open>Subscription controller\<close>

definition toggleSubscription ::
  "db \<Rightarrow> objectId option \<Rightarrow> string \<Rightarrow> objectId \<Rightarrow> (bool \<times> string) reply \<times> db" where
  "toggleSubscription d reqUser channelId newId =
     (case reqUser of
        None \<Rightarrow> (Inl (ApiError 401 ''User not authenticated. Please log in.''), d)
      | Some subscriberId \<Rightarrow>
        (case castObjectId channelId of
           None \<Rightarrow> (Inl (ApiError 400 ''Invalid channel ID provided.''), d)
         | Some cid \<Rightarrow>
           (case find (\<lambda>u. user_id u = cid) (users d) of
              None \<Rightarrow> (Inl (ApiError 404 ''Channel not found.''), d)
            | Some channelExists \<Rightarrow>
               if toHexString subscriberId = channelId
               then (Inl (ApiError 400 ''You cannot subscribe to your own channel.''), d)
               else
                 (case find (\<lambda>s. subscriber s = subscriberId \<and> channel s = cid) (subscriptions d) of
                    Some existingSubscription \<Rightarrow>
                      (Inr (200, ApiResponse 200 (False, channelId) ''Unsubscribed successfully.''),
                       d\<lparr>subscriptions := deleteOne (\<lambda>s. sub_id s = sub_id existingSubscription)
                                              (subscriptions d)\<rparr>)
                  | None \<Rightarrow>
                      (Inr (200, ApiResponse 200 (True, channelId) ''Subscribed successfully.''),
                       d\<lparr>subscriptions := subscriptions d @
                           [\<lparr>sub_id = newId, subscriber = subscriberId, channel = cid\<rparr>]\<rparr>)))))"

text \<open>A projected document is the list of its fields, name and value, in the order of
  the \<open>$project\<close> stage; identifiers are rendered in hexadecimal.\<close>

type_synonym document = "(string \<times> string) list"

definition projectSubscriber :: "user \<Rightarrow> document" where
  "projectSubscriber u =
     [(''_id'', toHexString (user_id u)), (''username'', username u), (''email'', email u),
      (''avatar'', avatar u), (''fullName'', fullName u)]"

definition subscribersPipeline :: "db \<Rightarrow> objectId \<Rightarrow> document list" where
  "subscribersPipeline d cid =
     concat (map (\<lambda>s. map projectSubscriber
                          (lookupUnwind (\<lambda>u. user_id u = subscriber s) (users d)))
                 (filter (\<lambda>s. channel s = cid) (subscriptions d)))"

definition getUserChannelSubscribers :: "db \<Rightarrow> string \<Rightarrow> document list reply" where
  "getUserChannelSubscribers d channelId =
     (if channelId = [] then Inl (ApiError 400 ''Invalid channel ID provided.'')
      else case castObjectId channelId of
        None \<Rightarrow> Inl (ApiError 400 ''Invalid channel ID provided.'')
      | Some cid \<Rightarrow>
         (let subscribers = subscribersPipeline d cid in
          if length subscribers = 0
          then Inr (200, ApiResponse 200 [] ''No subscribers found for this channel.'')
          else Inr (200, ApiResponse 200 subscribers ''Subscribers fetched successfully.'')))"

section \<open>Sequences of requests\<close>

text \<open>The handlers that write to the database, as requests served one after the other.
  \<open>freshIds\<close> says that the identifier the database generates for a new comment is not
  the identifier of an existing one.\<close>

datatype request =
    ToggleVideoLike "objectId option" string objectId
  | ToggleCommentLike "objectId option" string objectId
  | AddComment "objectId option" string string objectId
  | UpdateComment "objectId option" string string
  | DeleteComment "objectId option" string
  | DeleteVideo "objectId option" string
  | GetVideoById string
  | UpdateVideo "objectId option" string string string string string upload_env upload_env
  | ToggleSubscription "objectId option" string objectId

fun handle :: "db \<Rightarrow> request \<Rightarrow> db" where
  "handle d (ToggleVideoLike u videoId newId) = snd (toggleVideoLike d u videoId newId)"
| "handle d (ToggleCommentLike u commentId newId) = snd (toggleCommentLike d u commentId newId)"
| "handle d (AddComment u videoId body newId) = snd (addComment d u videoId body newId)"
| "handle d (UpdateComment u commentId body) = snd (updateComment d u commentId body)"
| "handle d (DeleteComment u commentId) = snd (deleteComment d u commentId)"
| "handle d (DeleteVideo u videoId) = fst (snd (deleteVideo d u videoId))"
| "handle d (GetVideoById videoId) = snd (getVideoById d videoId)"
| "handle d (UpdateVideo u videoId t ds vp tp venv tenv) =
     fst (snd (updateVideo d u videoId t ds vp tp venv tenv))"
| "handle d (ToggleSubscription u channelId newId) = snd (toggleSubscription d u channelId newId)"

fun freshIds :: "db \<Rightarrow> request \<Rightarrow> bool" where
  "freshIds d (AddComment u videoId body newId) = (newId \<notin> set (map comment_id (comments d)))"
| "freshIds d _ = True"

fun serve :: "db \<Rightarrow> request list \<Rightarrow> db" where
  "serve d [] = d"
| "serve d (r # rs) = serve (handle d r) rs"

fun freshRun :: "db \<Rightarrow> request list \<Rightarrow> bool" where
  "freshRun d [] = True"
| "freshRun d (r # rs) = (freshIds d r \<and> freshRun (handle d r) rs)"

section \<open>Notions used in the statements\<close>

text \<open>A Like is associated with a video when it references the video or one of the
  comments of the video.\<close>

definition associatedLike :: "db \<Rightarrow> objectId \<Rightarrow> like \<Rightarrow> bool" where
  "associatedLike d vid l =
     (like_video l = Some vid \<or>
      list_ex (\<lambda>c. comment_video c = vid \<and> like_comment l = Some (comment_id c)) (comments d))"

text \<open>Comment identifiers are unique, as the storage engine guarantees for \<open>_id\<close>, and
  every Like of a comment references an existing comment and carries the video
  reference of that comment.\<close>

definition comment_likes_consistent :: "db \<Rightarrow> bool" where
  "comment_likes_consistent d =
     (distinct (map comment_id (comments d)) \<and>
      list_all (\<lambda>l. case like_comment l of
                      None \<Rightarrow> True
                    | Some cid \<Rightarrow> list_ex (\<lambda>c. comment_id c = cid \<and>
                                                 like_video l = Some (comment_video c)) (comments d))
               (likes d))"

text \<open>The test \<open>updateVideo\<close> applies to what the adapter returned: an object with a
  truthy \<open>url\<close> and \<open>public_id\<close>.\<close>

definition uploadAccepted :: "upload_response option outcome \<Rightarrow> bool" where
  "uploadAccepted r =
     (case r of Returns (Some x) \<Rightarrow> url x \<noteq> [] \<and> public_id x \<noteq> [] | _ \<Rightarrow> False)"

text \<open>The \<open>updateFields\<close> object of \<open>updateVideo\<close> once title and description have been
  looked at.\<close>

definition initialFields :: "string \<Rightarrow> string \<Rightarrow> update_fields" where
  "initialFields title' description' =
     \<lparr>uf_title = (if title' \<noteq> [] then Some title' else None),
      uf_description = (if description' \<noteq> [] then Some description' else None),
      uf_videoFile = None, uf_videoPublicId = None, uf_duration = None,
      uf_thumbnail = None, uf_thumbnailPublicId = None\<rparr>"

section \<open>Sample data\<close>

text \<open>Two users, a video of each, a comment on each video, the likes that the toggles
  create for them, a subscription, and three answers of the media store. The concrete
  theorems below run the controllers on these.\<close>

definition alice :: objectId where "alice = ObjectId ''64f1a2b3c4d5e6f708192a01''"
definition bob :: objectId where "bob = ObjectId ''64f1a2b3c4d5e6f708192a02''"
definition vidV :: objectId where "vidV = ObjectId ''64f1a2b3c4d5e6f708192b01''"
definition vidW :: objectId where "vidW = ObjectId ''64f1a2b3c4d5e6f708192b02''"
definition cidC :: objectId where "cidC = ObjectId ''64f1a2b3c4d5e6f708192c01''"
definition cidD :: objectId where "cidD = ObjectId ''64f1a2b3c4d5e6f708192c02''"
definition lid1 :: objectId where "lid1 = ObjectId ''64f1a2b3c4d5e6f708192d01''"
definition lid2 :: objectId where "lid2 = ObjectId ''64f1a2b3c4d5e6f708192d02''"
definition lid3 :: objectId where "lid3 = ObjectId ''64f1a2b3c4d5e6f708192d03''"

definition userAlice :: user where
  "userAlice = \<lparr>user_id = alice, username = ''alice'', email = ''alice@example.com'',
     fullName = ''Alice A'', avatar = ''http://img/alice.png'', password = ''hash-a''\<rparr>"

definition userBob :: user where
  "userBob = \<lparr>user_id = bob, username = ''bob'', email = ''bob@example.com'',
     fullName = ''Bob B'', avatar = ''http://img/bob.png'', password = ''hash-b''\<rparr>"

definition videoV :: video where
  "videoV = \<lparr>video_id = vidV, title = ''Cats'', description = ''A cat video'',
     videoFile = ''http://media/v1.mp4'', videoPublicId = ''v1'',
     thumbnail = ''http://media/t1.png'', thumbnailPublicId = ''t1'',
     duration = 12, views = 7, isPublished = True, video_owner = alice\<rparr>"

definition videoW :: video where
  "videoW = \<lparr>video_id = vidW, title = ''Dogs'', description = ''A dog video'',
     videoFile = ''http://media/v2.mp4'', videoPublicId = ''v2'',
     thumbnail = ''http://media/t2.png'', thumbnailPublicId = ''t2'',
     duration = 30, views = 0, isPublished = True, video_owner = bob\<rparr>"

definition commentC :: comment where
  "commentC = \<lparr>comment_id = cidC, content = ''nice'', comment_video = vidV, comment_owner = bob\<rparr>"

definition commentD :: comment where
  "commentD = \<lparr>comment_id = cidD, content = ''woof'', comment_video = vidW, comment_owner = alice\<rparr>"

definition videoLikeV :: like where
  "videoLikeV = \<lparr>like_id = lid1, like_video = Some vidV, like_comment = None, likedBy = bob\<rparr>"

definition commentLikeC :: like where
  "commentLikeC = \<lparr>like_id = lid2, like_video = Some vidV, like_comment = Some cidC, likedBy = bob\<rparr>"

definition commentLikeD :: like where
  "commentLikeD = \<lparr>like_id = lid3, like_video = Some vidW, like_comment = Some cidD, likedBy = bob\<rparr>"

definition sample_db :: db where
  "sample_db = \<lparr>videos = [videoV, videoW], comments = [commentC, commentD], likes = [],
                 subscriptions = [], users = [userAlice, userBob]\<rparr>"

definition cascade_db :: db where
  "cascade_db = sample_db\<lparr>likes := [videoLikeV, commentLikeC, commentLikeD]\<rparr>"

definition saturated_db :: db where
  "saturated_db = sample_db\<lparr>videos := [videoV\<lparr>views := 2 ^ 53\<rparr>, videoW]\<rparr>"

definition orphan_db :: db where
  "orphan_db = sample_db\<lparr>users := [userBob]\<rparr>"

definition uploadOk :: upload_env where
  "uploadOk = \<lparr>uploader_upload = Returns \<lparr>url = ''http://media/v9.mp4'', public_id = ''v9'',
                                             resp_duration = 42\<rparr>,
               tempFileExists = True\<rparr>"

definition uploadOkImage :: upload_env where
  "uploadOkImage = \<lparr>uploader_upload = Returns \<lparr>url = ''http://media/t9.png'', public_id = ''t9'',
                                                  resp_duration = 0\<rparr>,
                    tempFileExists = True\<rparr>"

definition uploadFails :: upload_env where
  "uploadFails = \<lparr>uploader_upload = Throws, tempFileExists = True\<rparr>"

definition sid1 :: objectId where "sid1 = ObjectId ''64f1a2b3c4d5e6f708192e01''"

definition subscribed_db :: db where
  "subscribed_db = sample_db\<lparr>subscriptions := [\<lparr>sub_id = sid1, subscriber = bob, channel = alice\<rparr>]\<rparr>"

section \<open>Auxiliary lemmas\<close>

lemmas id_defs = alice_def bob_def vidV_def vidW_def cidC_def cidD_def lid1_def lid2_def lid3_def

lemmas doc_defs = userAlice_def userBob_def videoV_def videoW_def commentC_def commentD_def
  videoLikeV_def commentLikeC_def commentLikeD_def

lemmas cast_defs = castObjectId_def isValid_def isHexDigit_def lowerHex_def

lemma cast_vidV: "castObjectId (toHexString vidV) = Some vidV"
  by (simp add: vidV_def cast_defs)

lemma cast_cidC: "castObjectId (toHexString cidC) = Some cidC"
  by (simp add: cidC_def cast_defs)

lemma hex_vidV_nonempty: "toHexString vidV \<noteq> []"
  by (simp add: vidV_def)

lemma hex_cidC_nonempty: "toHexString cidC \<noteq> []"
  by (simp add: cidC_def)

lemma castObjectId_nonempty: "castObjectId s = Some i \<Longrightarrow> s \<noteq> []"
  by (auto simp: castObjectId_def isValid_def split: if_splits)

lemma find_Some_filter: "find P xs = Some x \<Longrightarrow> \<exists>ys. filter P xs = x # ys"
  by (induction xs) (auto split: if_splits)

lemma filter_single_find: "filter P xs = [x] \<Longrightarrow> find P xs = Some x"
  by (induction xs) (auto split: if_splits simp: find_None_iff filter_empty_conv)

lemma deleteOne_remove1:
  "distinct (map f xs) \<Longrightarrow> x \<in> set xs \<Longrightarrow> deleteOne (\<lambda>y. f y = f x) xs = remove1 x xs"
  by (induction xs) (auto simp: rev_image_eqI)

lemma length_deleteOne:
  "\<exists>x\<in>set xs. P x \<Longrightarrow> Suc (length (deleteOne P xs)) = length xs"
  by (induction xs) auto

lemma set_deleteOne_subset: "set (deleteOne P xs) \<subseteq> set xs"
  by (induction xs) auto

lemma find_updateOne:
  "(\<And>x. P x \<Longrightarrow> P (f x)) \<Longrightarrow> find P (updateOne P f xs) = map_option f (find P xs)"
  by (induction xs) auto

lemma find_updateOne_other:
  "(\<And>x. Q (f x) = Q x) \<Longrightarrow> (\<And>x. Q x \<Longrightarrow> \<not> P x) \<Longrightarrow> find Q (updateOne P f xs) = find Q xs"
  by (induction xs) auto

lemma filter_remove1_commute: "filter P (remove1 x xs) = remove1 x (filter P xs)"
  by (induction xs) auto

lemma length_updateOne: "length (updateOne P f xs) = length xs"
  by (induction xs) auto

lemma distinct_key_eq:
  "distinct (map f xs) \<Longrightarrow> x \<in> set xs \<Longrightarrow> y \<in> set xs \<Longrightarrow> f x = f y \<Longrightarrow> x = y"
  by (simp add: distinct_map inj_on_def)

lemma consistent_associated:
  assumes "comment_likes_consistent d" and "l \<in> set (likes d)"
  shows "associatedLike d vid l \<longleftrightarrow> like_video l = Some vid"
proof
  assume a: "associatedLike d vid l"
  show "like_video l = Some vid"
  proof (cases "like_video l = Some vid")
    case True then show ?thesis .
  next
    case False
    with a obtain c where c: "c \<in> set (comments d)" "comment_video c = vid"
        "like_comment l = Some (comment_id c)"
      by (auto simp: associatedLike_def list_ex_iff)
    from assms c(3) obtain c' where c': "c' \<in> set (comments d)" "comment_id c' = comment_id c"
        "like_video l = Some (comment_video c')"
      by (auto simp: comment_likes_consistent_def list_all_iff list_ex_iff split: option.splits)
    have "distinct (map comment_id (comments d))"
      using assms(1) by (simp add: comment_likes_consistent_def)
    then have "c' = c" using c'(1) c(1) c'(2) by (rule distinct_key_eq)
    with c' c show ?thesis by simp
  qed
next
  assume "like_video l = Some vid"
  then show "associatedLike d vid l" by (simp add: associatedLike_def)
qed

lemma length_filter_split:
  "length (filter (\<lambda>x. \<not> P x) xs) + length (filter P xs) = length xs"
  by (induction xs) auto

lemma set_deleteOne_keep: "x \<in> set xs \<Longrightarrow> \<not> P x \<Longrightarrow> x \<in> set (deleteOne P xs)"
  by (induction xs) auto

lemma distinct_map_deleteOne: "distinct (map f xs) \<Longrightarrow> distinct (map f (deleteOne P xs))"
proof (induction xs)
  case Nil then show ?case by simp
next
  case (Cons a xs)
  have "f a \<notin> f ` set xs \<Longrightarrow> f a \<notin> f ` set (deleteOne P xs)"
    using set_deleteOne_subset [of P xs] by blast
  with Cons show ?case by auto
qed

lemma map_key_updateOne: "(\<And>x. k (f x) = k x) \<Longrightarrow> map k (updateOne P f xs) = map k xs"
  by (induction xs) auto

lemma consistentI:
  assumes "distinct (map comment_id (comments d))"
    and "\<And>l cid. l \<in> set (likes d) \<Longrightarrow> like_comment l = Some cid \<Longrightarrow>
           \<exists>c\<in>set (comments d). comment_id c = cid \<and> like_video l = Some (comment_video c)"
  shows "comment_likes_consistent d"
  using assms by (auto simp: comment_likes_consistent_def list_all_iff list_ex_iff split: option.splits)

lemma consistentD:
  assumes "comment_likes_consistent d" and "l \<in> set (likes d)" and "like_comment l = Some cid"
  shows "\<exists>c\<in>set (comments d). comment_id c = cid \<and> like_video l = Some (comment_video c)"
  using assms by (auto simp: comment_likes_consistent_def list_all_iff list_ex_iff split: option.splits)

lemma consistent_distinct:
  "comment_likes_consistent d \<Longrightarrow> distinct (map comment_id (comments d))"
  by (simp add: comment_likes_consistent_def)

lemma consistent_no_likes:
  "distinct (map comment_id (comments d)) \<Longrightarrow> likes d = [] \<Longrightarrow> comment_likes_consistent d"
  by (simp add: comment_likes_consistent_def)

lemma updateOne_member:
  "x \<in> set xs \<Longrightarrow> x \<in> set (updateOne P f xs) \<or> f x \<in> set (updateOne P f xs)"
  by (induction xs) auto

lemma getVideoById_invalid:
  "castObjectId videoId = None \<Longrightarrow> \<exists>m. getVideoById d videoId = (Inl (ApiError 400 m), d)"
  by (simp add: getVideoById_def)

lemma videoPipeline_absent:
  "find (\<lambda>x. video_id x = vid) (videos d) = None \<Longrightarrow> videoPipeline d vid = []"
  by (simp add: videoPipeline_def find_None_iff filter_empty_conv)

lemma videoPipeline_head:
  assumes "find (\<lambda>x. video_id x = vid) (videos d) = Some v"
    and "find (\<lambda>u. user_id u = video_owner v) (users d) = Some u"
  shows "\<exists>rest. videoPipeline d vid = videoOut v u # rest"
proof -
  from find_Some_filter [OF assms(1)] obtain vs
    where vs: "filter (\<lambda>x. video_id x = vid) (videos d) = v # vs" by blast
  from find_Some_filter [OF assms(2)] obtain us
    where us: "filter (\<lambda>u. user_id u = video_owner v) (users d) = u # us" by blast
  show ?thesis by (simp add: videoPipeline_def lookupUnwind_def vs us)
qed

lemma cast_malformed: "castObjectId ''not-an-id'' = None"
  by (simp add: cast_defs)

lemma cast_lid1: "castObjectId (toHexString lid1) = Some lid1"
  by (simp add: lid1_def cast_defs)

lemma uploadOnCloudinary_trace:
  "path \<noteq> [] \<Longrightarrow> snd (uploadOnCloudinary path env) = [UploadCall path]"
  by (simp add: uploadOnCloudinary_def split: outcome.splits)

lemma videoFileStep_trace:
  "snd (videoFileStep v path env uf) =
     (if path = [] then []
      else if uploadAccepted (fst (uploadOnCloudinary path env))
           then UploadCall path # deleteFromCloudinary (videoPublicId v) ''video''
           else [UploadCall path])"
  by (simp add: videoFileStep_def uploadOnCloudinary_def uploadAccepted_def
        split: outcome.splits option.splits)

lemma videoFileStep_fails:
  "isl (fst (videoFileStep v path env uf)) \<longleftrightarrow>
     path \<noteq> [] \<and> \<not> uploadAccepted (fst (uploadOnCloudinary path env))"
  by (simp add: videoFileStep_def uploadOnCloudinary_def uploadAccepted_def
        split: outcome.splits option.splits)

lemma thumbnailStep_trace:
  "snd (thumbnailStep v path env uf) =
     (if path = [] then []
      else if uploadAccepted (fst (uploadOnCloudinary path env))
           then UploadCall path # deleteFromCloudinary (thumbnailPublicId v) ''image''
           else [UploadCall path])"
  by (simp add: thumbnailStep_def uploadOnCloudinary_def uploadAccepted_def
        split: outcome.splits option.splits)

lemma thumbnailStep_fails:
  "isl (fst (thumbnailStep v path env uf)) \<longleftrightarrow>
     path \<noteq> [] \<and> \<not> uploadAccepted (fst (uploadOnCloudinary path env))"
  by (simp add: thumbnailStep_def uploadOnCloudinary_def uploadAccepted_def
        split: outcome.splits option.splits)

lemma updateVideo_rejected:
  assumes "videoId = [] \<or> castObjectId videoId = None \<or>
    (title' = [] \<and> description' = [] \<and> vpath = [] \<and> tpath = [])"
  shows "\<exists>e. updateVideo d reqUser videoId title' description' vpath tpath venv tenv = (Inl e, d, [])"
proof (cases "videoId = []")
  case True
  then show ?thesis by (simp add: updateVideo_def)
next
  case ne: False
  show ?thesis
  proof (cases "castObjectId videoId")
    case None
    with ne show ?thesis by (simp add: updateVideo_def)
  next
    case (Some vid)
    with assms ne have "title' = [] \<and> description' = [] \<and> vpath = [] \<and> tpath = []" by simp
    with ne Some show ?thesis by (simp add: updateVideo_def)
  qed
qed

lemma updateVideo_not_found:
  assumes "videoId \<noteq> []" and "castObjectId videoId = Some vid"
    and "\<not> (title' = [] \<and> description' = [] \<and> vpath = [] \<and> tpath = [])"
    and "find (\<lambda>v. video_id v = vid) (videos d) = None"
  shows "updateVideo d reqUser videoId title' description' vpath tpath venv tenv =
           (Inl (ApiError 404 ''Video not found''), d, [])"
  using assms by (simp add: updateVideo_def)

lemma updateVideo_forbidden:
  assumes "videoId \<noteq> []" and "castObjectId videoId = Some vid"
    and "\<not> (title' = [] \<and> description' = [] \<and> vpath = [] \<and> tpath = [])"
    and "find (\<lambda>v. video_id v = vid) (videos d) = Some v"
    and "map_option toHexString reqUser \<noteq> Some (toHexString (video_owner v))"
  shows "updateVideo d reqUser videoId title' description' vpath tpath venv tenv =
           (Inl (ApiError 403 ''You are not authorized to update this video''), d, [])"
  using assms by (simp add: updateVideo_def)

lemma updateVideo_authorized:
  assumes "videoId \<noteq> []" and "castObjectId videoId = Some vid"
    and "\<not> (title' = [] \<and> description' = [] \<and> vpath = [] \<and> tpath = [])"
    and "find (\<lambda>v. video_id v = vid) (videos d) = Some v"
    and "map_option toHexString reqUser = Some (toHexString (video_owner v))"
  shows "updateVideo d reqUser videoId title' description' vpath tpath venv tenv =
     (case videoFileStep v vpath venv (initialFields title' description') of
        (Inl e, t1) \<Rightarrow> (Inl e, d, t1)
      | (Inr uf1, t1) \<Rightarrow>
         (case thumbnailStep v tpath tenv uf1 of
            (Inl e, t2) \<Rightarrow> (Inl e, d, t1 @ t2)
          | (Inr updateFields, t2) \<Rightarrow>
             (Inr (200, ApiResponse 200 (setFields updateFields v) ''Video updated successfully''),
              d\<lparr>videos := updateOne (\<lambda>v. video_id v = vid) (setFields updateFields) (videos d)\<rparr>,
              t1 @ t2)))"
proof -
  obtain r1 t1 where s1: "videoFileStep v vpath venv (initialFields title' description') = (r1, t1)"
    by fastforce
  note s1' = s1 [unfolded initialFields_def]
  have nf: "(title' = [] \<and> description' = [] \<and> vpath = [] \<and> tpath = []) = False"
    using assms(3) by simp
  note a = assms(1,2,4,5)
  show ?thesis
  proof (cases r1)
    case (Inl e)
    with a s1' show ?thesis
      by (simp add: updateVideo_def initialFields_def nf)
  next
    case r1: (Inr uf1)
    obtain r2 t2 where s2: "thumbnailStep v tpath tenv uf1 = (r2, t2)" by fastforce
    show ?thesis
    proof (cases r2)
      case (Inl e)
      with a s1' r1 s2 show ?thesis
        by (simp add: updateVideo_def initialFields_def nf)
    next
      case (Inr uf2)
      with a s1' r1 s2 show ?thesis
        by (simp add: updateVideo_def initialFields_def nf)
    qed
  qed
qed

lemma updateVideo_cases:
  assumes run: "updateVideo d reqUser videoId title' description' vpath tpath venv tenv = (res, d', trace)"
  shows "(isl res \<and> d' = d \<and> trace = [])
     \<or> (\<exists>v uf. isl res \<and> d' = d \<and> isl (fst (videoFileStep v vpath venv uf)) \<and>
           trace = snd (videoFileStep v vpath venv uf))
     \<or> (\<exists>v uf uf1. isl res \<and> d' = d \<and> \<not> isl (fst (videoFileStep v vpath venv uf)) \<and>
           isl (fst (thumbnailStep v tpath tenv uf1)) \<and>
           trace = snd (videoFileStep v vpath venv uf) @ snd (thumbnailStep v tpath tenv uf1))
     \<or> (\<exists>v uf uf1. \<not> isl res \<and> \<not> isl (fst (videoFileStep v vpath venv uf)) \<and>
           \<not> isl (fst (thumbnailStep v tpath tenv uf1)) \<and>
           trace = snd (videoFileStep v vpath venv uf) @ snd (thumbnailStep v tpath tenv uf1))"
    (is "?A \<or> ?B \<or> ?C \<or> ?D")
proof (cases "videoId = [] \<or> castObjectId videoId = None \<or>
    (title' = [] \<and> description' = [] \<and> vpath = [] \<and> tpath = [])")
  case True
  from updateVideo_rejected [OF True, of d reqUser venv tenv] run
  have ?A by auto
  then show ?thesis ..
next
  case False
  then obtain vid where ne: "videoId \<noteq> []" and vid: "castObjectId videoId = Some vid"
    and some: "\<not> (title' = [] \<and> description' = [] \<and> vpath = [] \<and> tpath = [])"
    by auto
  show ?thesis
  proof (cases "find (\<lambda>v. video_id v = vid) (videos d)")
    case None
    from updateVideo_not_found [OF ne vid some None, of reqUser venv tenv] run
    have ?A by auto
    then show ?thesis ..
  next
    case (Some v)
    show ?thesis
    proof (cases "map_option toHexString reqUser = Some (toHexString (video_owner v))")
      case False
      from updateVideo_forbidden [OF ne vid some Some False, of venv tenv] run
      have ?A by auto
      then show ?thesis ..
    next
      case True
      note eq = updateVideo_authorized [OF ne vid some Some True, of venv tenv]
      let ?uf0 = "initialFields title' description'"
      obtain r1 t1 where s1: "videoFileStep v vpath venv ?uf0 = (r1, t1)" by fastforce
      show ?thesis
      proof (cases r1)
        case (Inl e)
        from run eq s1 Inl have "res = Inl e" "d' = d" "trace = t1" by simp_all
        with s1 Inl have "isl res \<and> d' = d \<and> isl (fst (videoFileStep v vpath venv ?uf0)) \<and>
           trace = snd (videoFileStep v vpath venv ?uf0)" by simp
        then have ?B by blast
        then show ?thesis by blast
      next
        case (Inr uf1)
        obtain r2 t2 where s2: "thumbnailStep v tpath tenv uf1 = (r2, t2)" by fastforce
        have n1: "\<not> isl (fst (videoFileStep v vpath venv ?uf0))" using s1 Inr by simp
        show ?thesis
        proof (cases r2)
          case (Inl e)
          from run eq s1 s2 Inl \<open>r1 = Inr uf1\<close>
          have "res = Inl e" "d' = d" "trace = t1 @ t2" by simp_all
          with s1 s2 Inl n1 have "isl res \<and> d' = d \<and> \<not> isl (fst (videoFileStep v vpath venv ?uf0)) \<and>
             isl (fst (thumbnailStep v tpath tenv uf1)) \<and>
             trace = snd (videoFileStep v vpath venv ?uf0) @ snd (thumbnailStep v tpath tenv uf1)"
            by simp
          then have ?C by blast
          then show ?thesis by blast
        next
          case r2: (Inr uf2)
          from run eq s1 s2 r2 \<open>r1 = Inr uf1\<close>
          have "\<not> isl res" "trace = t1 @ t2" by auto
          with s1 s2 r2 n1 have "\<not> isl res \<and> \<not> isl (fst (videoFileStep v vpath venv ?uf0)) \<and>
             \<not> isl (fst (thumbnailStep v tpath tenv uf1)) \<and>
             trace = snd (videoFileStep v vpath venv ?uf0) @ snd (thumbnailStep v tpath tenv uf1)"
            by simp
          then have ?D by blast
          then show ?thesis by blast
        qed
      qed
    qed
  qed
qed

lemma videoFileStep_destroy:
  assumes "DestroyCall p k \<in> set (snd (videoFileStep v path env uf))"
  shows "k = ''video'' \<and> p = videoPublicId v \<and> path \<noteq> [] \<and>
         uploadAccepted (fst (uploadOnCloudinary path env)) \<and>
         snd (videoFileStep v path env uf) = [UploadCall path, DestroyCall p ''video'']"
  using assms
  by (simp add: videoFileStep_trace deleteFromCloudinary_def split: if_splits)

lemma thumbnailStep_destroy:
  assumes "DestroyCall p k \<in> set (snd (thumbnailStep v path env uf))"
  shows "k = ''image'' \<and> p = thumbnailPublicId v \<and> path \<noteq> [] \<and>
         uploadAccepted (fst (uploadOnCloudinary path env)) \<and>
         snd (thumbnailStep v path env uf) = [UploadCall path, DestroyCall p ''image'']"
  using assms
  by (simp add: thumbnailStep_trace deleteFromCloudinary_def split: if_splits)

lemmas run_defs = updateVideo_def videoFileStep_def thumbnailStep_def uploadOnCloudinary_def
  deleteFromCloudinary_def setFields_def uploadOk_def uploadOkImage_def uploadFails_def

lemma updateVideo_thumbnail_failure_run:
  "updateVideo sample_db (Some alice) (toHexString vidV) ''New title'' [] ''/tmp/v.mp4'' ''/tmp/t.png''
      uploadOk uploadFails =
     (Inl (ApiError 500 ''Error while uploading new thumbnail to Cloudinary''), sample_db,
      [UploadCall ''/tmp/v.mp4'', DestroyCall ''v1'' ''video'', UploadCall ''/tmp/t.png''])"
proof -
  have f: "find (\<lambda>v. video_id v = vidV) (videos sample_db) = Some videoV"
    by (simp add: sample_db_def videoV_def)
  have o: "video_owner videoV = alice" "videoPublicId videoV = ''v1''"
    by (simp_all add: videoV_def)
  show ?thesis
    by (simp add: run_defs cast_vidV hex_vidV_nonempty f o)
qed

lemma updateVideo_video_failure_run:
  "updateVideo sample_db (Some alice) (toHexString vidV) [] [] ''/tmp/v.mp4'' ''/tmp/t.png''
      uploadFails uploadOkImage =
     (Inl (ApiError 500 ''Error while uploading new video file to Cloudinary (no URL or public_id)''),
      sample_db, [UploadCall ''/tmp/v.mp4''])"
proof -
  have f: "find (\<lambda>v. video_id v = vidV) (videos sample_db) = Some videoV"
    by (simp add: sample_db_def videoV_def)
  have o: "video_owner videoV = alice" "videoPublicId videoV = ''v1''"
    by (simp_all add: videoV_def)
  show ?thesis
    by (simp add: run_defs cast_vidV hex_vidV_nonempty f o)
qed

lemma updateVideo_success_run:
  "\<exists>r d'. updateVideo sample_db (Some alice) (toHexString vidV) [] [] ''/tmp/v.mp4'' ''/tmp/t.png''
      uploadOk uploadOkImage =
     (Inr r, d',
      [UploadCall ''/tmp/v.mp4'', DestroyCall ''v1'' ''video'',
       UploadCall ''/tmp/t.png'', DestroyCall ''t1'' ''image''])"
proof -
  have f: "find (\<lambda>v. video_id v = vidV) (videos sample_db) = Some videoV"
    by (simp add: sample_db_def videoV_def)
  have o: "video_owner videoV = alice" "videoPublicId videoV = ''v1''" "thumbnailPublicId videoV = ''t1''"
    by (simp_all add: videoV_def)
  show ?thesis
    by (simp add: run_defs cast_vidV hex_vidV_nonempty f o)
qed

lemma cast_alice: "castObjectId (toHexString alice) = Some alice"
  by (simp add: alice_def cast_defs)

lemma cast_alice_upper: "castObjectId ''64F1A2B3C4D5E6F708192A01'' = Some alice"
  by (simp add: alice_def cast_defs)

lemma subscribersPipeline_fields:
  assumes "item \<in> set (subscribersPipeline d cid)"
  shows "map fst item = [''_id'', ''username'', ''email'', ''avatar'', ''fullName''] \<and>
         (\<exists>s\<in>set (subscriptions d). \<exists>u\<in>set (users d).
             channel s = cid \<and> user_id u = subscriber s \<and>
             map snd item = [toHexString (user_id u), username u, email u, avatar u, fullName u])"
proof -
  from assms obtain s u where s: "s \<in> set (subscriptions d)" "channel s = cid"
    and u: "u \<in> set (users d)" "user_id u = subscriber s"
    and item: "item = projectSubscriber u"
    by (auto simp: subscribersPipeline_def lookupUnwind_def)
  have keys: "map fst item = [''_id'', ''username'', ''email'', ''avatar'', ''fullName'']"
    by (simp add: item projectSubscriber_def)
  have vals: "map snd item = [toHexString (user_id u), username u, email u, avatar u, fullName u]"
    by (simp add: item projectSubscriber_def)
  have "\<exists>s\<in>set (subscriptions d). \<exists>u\<in>set (users d).
             channel s = cid \<and> user_id u = subscriber s \<and>
             map snd item = [toHexString (user_id u), username u, email u, avatar u, fullName u]"
  proof (rule bexI [of _ s])
    show "\<exists>u\<in>set (users d). channel s = cid \<and> user_id u = subscriber s \<and>
             map snd item = [toHexString (user_id u), username u, email u, avatar u, fullName u]"
    proof (rule bexI [of _ u])
      show "channel s = cid \<and> user_id u = subscriber s \<and>
             map snd item = [toHexString (user_id u), username u, email u, avatar u, fullName u]"
        using s(2) u(2) vals by simp
    qed (rule u(1))
  qed (rule s(1))
  with keys show ?thesis by simp
qed

lemma subscribersPipeline_complete:
  assumes "s \<in> set (subscriptions d)" and "channel s = cid"
    and "u \<in> set (users d)" and "user_id u = subscriber s"
  shows "projectSubscriber u \<in> set (subscribersPipeline d cid)"
  using assms
  by (auto simp: subscribersPipeline_def lookupUnwind_def)

lemma subscribers_run:
  "getUserChannelSubscribers subscribed_db (toHexString alice) =
     Inr (200, ApiResponse 200
       [[(''_id'', ''64f1a2b3c4d5e6f708192a02''), (''username'', ''bob''),
         (''email'', ''bob@example.com''), (''avatar'', ''http://img/bob.png''),
         (''fullName'', ''Bob B'')]]
       ''Subscribers fetched successfully.'')"
proof -
  have ne: "toHexString alice \<noteq> []" by (simp add: alice_def)
  have p: "subscribersPipeline subscribed_db alice =
       [[(''_id'', ''64f1a2b3c4d5e6f708192a02''), (''username'', ''bob''),
         (''email'', ''bob@example.com''), (''avatar'', ''http://img/bob.png''),
         (''fullName'', ''Bob B'')]]"
    by (simp add: subscribersPipeline_def lookupUnwind_def projectSubscriber_def subscribed_db_def
          sample_db_def userAlice_def userBob_def alice_def bob_def)
  show ?thesis using ne p by (simp add: getUserChannelSubscribers_def cast_alice)
qed

lemma toggleSubscription_rejects_own_id:
  assumes "castObjectId (toHexString caller) = Some caller"
    and "find (\<lambda>u. user_id u = caller) (users d) = Some u"
  shows "toggleSubscription d (Some caller) (toHexString caller) newId =
           (Inl (ApiError 400 ''You cannot subscribe to your own channel.''), d)"
  using assms by (simp add: toggleSubscription_def)

lemma deleteOne_append_fresh:
  "k \<notin> f ` set xs \<Longrightarrow> f y = k \<Longrightarrow> deleteOne (\<lambda>x. f x = k) (xs @ [y]) = xs"
  by (induction xs) auto

lemma find_append_None:
  "find P xs = None \<Longrightarrow> find P (xs @ ys) = find P ys"
  by (induction xs) (auto split: if_splits)

lemma toggleVideoLike_twice_from_unliked:
  assumes cast: "castObjectId videoId = Some vid"
    and found: "find (\<lambda>v. video_id v = vid) (videos d) = Some v"
    and none: "find (\<lambda>l. like_video l = Some vid \<and> likedBy l = userId) (likes d) = None"
    and fresh: "newId \<notin> like_id ` set (likes d)"
  shows "toggleVideoLike d (Some userId) videoId newId =
           (Inr (200, ApiResponse 200 True ''Video liked successfully''),
            d\<lparr>likes := likes d @ [\<lparr>like_id = newId, like_video = Some vid, like_comment = None,
                                     likedBy = userId\<rparr>]\<rparr>)
       \<and> toggleVideoLike (snd (toggleVideoLike d (Some userId) videoId newId)) (Some userId) videoId newId' =
           (Inr (200, ApiResponse 200 False ''Video unliked successfully''), d)"
proof -
  let ?new = "\<lparr>like_id = newId, like_video = Some vid, like_comment = None, likedBy = userId\<rparr>"
  let ?d1 = "d\<lparr>likes := likes d @ [?new]\<rparr>"
  have ne: "videoId \<noteq> []" using cast by (rule castObjectId_nonempty)
  have first: "toggleVideoLike d (Some userId) videoId newId =
           (Inr (200, ApiResponse 200 True ''Video liked successfully''), ?d1)"
    using cast found none ne by (simp add: toggleVideoLike_def)
  have f1: "find (\<lambda>l. like_video l = Some vid \<and> likedBy l = userId) (likes ?d1) = Some ?new"
    using none by (simp add: find_append_None)
  have del: "deleteOne (\<lambda>l. like_id l = newId) (likes d @ [?new]) = likes d"
    using fresh by (intro deleteOne_append_fresh) simp_all
  have second: "toggleVideoLike ?d1 (Some userId) videoId newId' =
           (Inr (200, ApiResponse 200 False ''Video unliked successfully''), d)"
    using cast found ne f1 del by (simp add: toggleVideoLike_def)
  show ?thesis using first second by simp
qed

lemma toggleVideoLike_twice_from_liked:
  assumes cast: "castObjectId videoId = Some vid"
    and found: "find (\<lambda>v. video_id v = vid) (videos d) = Some v"
    and dist: "distinct (map like_id (likes d))"
    and only: "filter (\<lambda>l. like_video l = Some vid \<and> likedBy l = userId) (likes d) = [cl]"
  shows "toggleVideoLike d (Some userId) videoId newId =
           (Inr (200, ApiResponse 200 False ''Video unliked successfully''),
            d\<lparr>likes := remove1 cl (likes d)\<rparr>)
       \<and> toggleVideoLike (snd (toggleVideoLike d (Some userId) videoId newId)) (Some userId) videoId newId' =
           (Inr (200, ApiResponse 200 True ''Video liked successfully''),
            d\<lparr>likes := remove1 cl (likes d) @
               [\<lparr>like_id = newId', like_video = Some vid, like_comment = None, likedBy = userId\<rparr>]\<rparr>)"
proof -
  let ?P = "\<lambda>l. like_video l = Some vid \<and> likedBy l = userId"
  let ?d1 = "d\<lparr>likes := remove1 cl (likes d)\<rparr>"
  have ne: "videoId \<noteq> []" using cast by (rule castObjectId_nonempty)
  have f: "find ?P (likes d) = Some cl" using only by (rule filter_single_find)
  have mem: "cl \<in> set (likes d)" using f by (auto simp: find_Some_iff)
  have del: "deleteOne (\<lambda>l. like_id l = like_id cl) (likes d) = remove1 cl (likes d)"
    using dist mem by (rule deleteOne_remove1)
  have first: "toggleVideoLike d (Some userId) videoId newId =
           (Inr (200, ApiResponse 200 False ''Video unliked successfully''), ?d1)"
    using cast found ne f del by (simp add: toggleVideoLike_def)
  have "filter ?P (remove1 cl (likes d)) = remove1 cl (filter ?P (likes d))"
    by (rule filter_remove1_commute)
  then have "filter ?P (likes ?d1) = []" using only by simp
  then have none: "find ?P (likes ?d1) = None"
    by (simp add: find_None_iff filter_empty_conv)
  have second: "toggleVideoLike ?d1 (Some userId) videoId newId' =
           (Inr (200, ApiResponse 200 True ''Video liked successfully''),
            d\<lparr>likes := remove1 cl (likes d) @
               [\<lparr>like_id = newId', like_video = Some vid, like_comment = None, likedBy = userId\<rparr>]\<rparr>)"
    using cast found ne none by (simp add: toggleVideoLike_def)
  show ?thesis using first second by simp
qed

lemma trim_no_break_space: "trim [CHR 0xC2, CHR 0xA0] = []"
  by (simp add: trim_def whiteSpace_def)

lemma trim_both_ends: "trim ('' a b '' @ [CHR 0xE2, CHR 0x80, CHR 0xA8]) = ''a b''"
  by (simp add: trim_def whiteSpace_def)

lemma addComment_rejects_no_break_space:
  "addComment d reqUser videoId [CHR 0xC2, CHR 0xA0] newId =
     (Inl (ApiError 400 ''Comment content is required''), d)"
  by (simp add: addComment_def trim_no_break_space)

lemma getLikedVideos_empty:
  "likedVideosPipeline d userId = [] \<Longrightarrow>
     getLikedVideos d (Some userId) = Inr (200, ApiResponse 200 [] ''User hasn't liked any videos'')"
  by (simp add: getLikedVideos_def)

section \<open>The like toggles\<close>

text \<open>
  C1 (as amended). When \<open>toggleCommentLike\<close> finds no Like of the comment by the caller, the
  Like it creates has its comment reference set to the comment and its video reference
  set as well, to the video the comment belongs to; afterwards exactly one Like of that
  comment by that caller exists.
\<close>

theorem toggleCommentLike_creates_denormalized_like:
  assumes "castObjectId commentId = Some cid"
    and "find (\<lambda>c. comment_id c = cid) (comments d) = Some cm"
    and "find (\<lambda>l. like_comment l = Some cid \<and> likedBy l = userId) (likes d) = None"
  shows "toggleCommentLike d (Some userId) commentId newId =
     (Inr (200, ApiResponse 200 True ''comment liked successfully''),
      d\<lparr>likes := likes d @ [\<lparr>like_id = newId, like_video = Some (comment_video cm),
                               like_comment = Some cid, likedBy = userId\<rparr>]\<rparr>)
    \<and> length (filter (\<lambda>l. like_comment l = Some cid \<and> likedBy l = userId)
         (likes (snd (toggleCommentLike d (Some userId) commentId newId)))) = 1"
proof -
  have ne: "commentId \<noteq> []" using assms(1) by (rule castObjectId_nonempty)
  have none: "filter (\<lambda>l. like_comment l = Some cid \<and> likedBy l = userId) (likes d) = []"
    using assms(3) by (simp add: find_None_iff filter_empty_conv)
  have eq: "toggleCommentLike d (Some userId) commentId newId =
     (Inr (200, ApiResponse 200 True ''comment liked successfully''),
      d\<lparr>likes := likes d @ [\<lparr>like_id = newId, like_video = Some (comment_video cm),
                               like_comment = Some cid, likedBy = userId\<rparr>]\<rparr>)"
    using assms ne by (simp add: toggleCommentLike_def)
  show ?thesis unfolding eq using none by simp
qed

theorem toggleCommentLike_creates_denormalized_like_witness:
  "castObjectId (toHexString cidC) = Some cidC \<and>
   toggleCommentLike sample_db (Some bob) (toHexString cidC) lid2 =
     (Inr (200, ApiResponse 200 True ''comment liked successfully''),
      sample_db\<lparr>likes := [commentLikeC]\<rparr>)"
proof -
  have f: "find (\<lambda>c. comment_id c = cidC) (comments sample_db) = Some commentC"
    by (simp add: sample_db_def commentC_def)
  have n: "find (\<lambda>l. like_comment l = Some cidC \<and> likedBy l = bob) (likes sample_db) = None"
    by (simp add: sample_db_def)
  show ?thesis
    using toggleCommentLike_creates_denormalized_like [OF cast_cidC f n, of lid2]
    by (simp add: sample_db_def commentLikeC_def commentC_def cast_cidC)
qed

text \<open>
  C1 as stated fails: bob has no Like of comment C, and the Like that
  \<open>toggleCommentLike\<close> creates for him carries the video reference V next to the comment
  reference C.
\<close>

theorem toggleCommentLike_video_reference_set:
  "find (\<lambda>l. like_comment l = Some cidC \<and> likedBy l = bob) (likes sample_db) = None \<and>
   snd (toggleCommentLike sample_db (Some bob) (toHexString cidC) lid2) =
      sample_db\<lparr>likes := [\<lparr>like_id = lid2, like_video = Some vidV,
                               like_comment = Some cidC, likedBy = bob\<rparr>]\<rparr>"
  by (simp add: toggleCommentLike_def cast_cidC hex_cidC_nonempty sample_db_def commentC_def)

text \<open>
  C9. \<open>toggleVideoLike\<close> looks for a Like by video reference and liker alone. When the
  caller's only Like that carries the video reference V is a Like of a comment, the call
  deletes that Like and answers \<open>isLiked = false\<close>; no Like of the video is created.
\<close>

theorem toggleVideoLike_deletes_comment_like:
  assumes "castObjectId videoId = Some vid"
    and "find (\<lambda>v. video_id v = vid) (videos d) = Some v"
    and "distinct (map like_id (likes d))"
    and "filter (\<lambda>l. like_video l = Some vid \<and> likedBy l = userId) (likes d) = [cl]"
    and "like_comment cl = Some cid"
  shows "toggleVideoLike d (Some userId) videoId newId =
     (Inr (200, ApiResponse 200 False ''Video unliked successfully''),
      d\<lparr>likes := remove1 cl (likes d)\<rparr>)
    \<and> cl \<notin> set (remove1 cl (likes d))
    \<and> filter (\<lambda>l. like_video l = Some vid \<and> likedBy l = userId) (remove1 cl (likes d)) = []"
proof -
  let ?P = "\<lambda>l. like_video l = Some vid \<and> likedBy l = userId"
  have ne: "videoId \<noteq> []" using assms(1) by (rule castObjectId_nonempty)
  have f: "find ?P (likes d) = Some cl" using assms(4) by (rule filter_single_find)
  have mem: "cl \<in> set (likes d)" using f by (auto simp: find_Some_iff)
  have del: "deleteOne (\<lambda>l. like_id l = like_id cl) (likes d) = remove1 cl (likes d)"
    using assms(3) mem by (rule deleteOne_remove1)
  have dl: "distinct (likes d)" using assms(3) by (simp add: distinct_map)
  have eq: "toggleVideoLike d (Some userId) videoId newId =
     (Inr (200, ApiResponse 200 False ''Video unliked successfully''),
      d\<lparr>likes := remove1 cl (likes d)\<rparr>)"
    using assms(1,2) ne f del by (simp add: toggleVideoLike_def)
  have gone: "cl \<notin> set (remove1 cl (likes d))" using dl by simp
  have "filter ?P (remove1 cl (likes d)) = remove1 cl (filter ?P (likes d))"
    by (rule filter_remove1_commute)
  then have "filter ?P (remove1 cl (likes d)) = []" using assms(4) by simp
  with eq gone show ?thesis by simp
qed

theorem toggleVideoLike_deletes_comment_like_witness:
  "snd (toggleCommentLike sample_db (Some bob) (toHexString cidC) lid2) =
     sample_db\<lparr>likes := [commentLikeC]\<rparr> \<and>
   like_comment commentLikeC = Some cidC \<and>
   toggleVideoLike (sample_db\<lparr>likes := [commentLikeC]\<rparr>) (Some bob) (toHexString vidV) lid1 =
     (Inr (200, ApiResponse 200 False ''Video unliked successfully''), sample_db\<lparr>likes := []\<rparr>)"
proof -
  let ?d = "sample_db\<lparr>likes := [commentLikeC]\<rparr>"
  have made: "snd (toggleCommentLike sample_db (Some bob) (toHexString cidC) lid2) = ?d"
    by (simp add: toggleCommentLike_def cast_cidC hex_cidC_nonempty sample_db_def commentC_def
          commentLikeC_def)
  have f: "find (\<lambda>v. video_id v = vidV) (videos ?d) = Some videoV"
    by (simp add: sample_db_def videoV_def)
  have dist: "distinct (map like_id (likes ?d))" by simp
  have only: "filter (\<lambda>l. like_video l = Some vidV \<and> likedBy l = bob) (likes ?d) = [commentLikeC]"
    by (simp add: commentLikeC_def)
  have c: "like_comment commentLikeC = Some cidC" by (simp add: commentLikeC_def)
  show ?thesis
    using toggleVideoLike_deletes_comment_like [OF cast_vidV f dist only c, of lid1] made c
    by simp
qed

text \<open>
  C2 (the code at the failing input). bob has liked comment C of video V and no video.
  The \<open>$match\<close> stage of \<open>getLikedVideos\<close> keeps every Like of his whose video field is
  set, so the Like of the comment passes and V is listed among his liked videos.
\<close>

theorem getLikedVideos_lists_video_of_liked_comment:
  "snd (toggleCommentLike sample_db (Some bob) (toHexString cidC) lid2) =
     sample_db\<lparr>likes := [commentLikeC]\<rparr> \<and>
   like_comment commentLikeC = Some cidC \<and>
   getLikedVideos (sample_db\<lparr>likes := [commentLikeC]\<rparr>) (Some bob) =
     Inr (200, ApiResponse 200 [videoOut videoV userAlice] ''Liked videos fetched successfully'')"
proof -
  have made: "snd (toggleCommentLike sample_db (Some bob) (toHexString cidC) lid2) =
     sample_db\<lparr>likes := [commentLikeC]\<rparr>"
    by (simp add: toggleCommentLike_def cast_cidC hex_cidC_nonempty sample_db_def commentC_def
          commentLikeC_def)
  have pipe: "likedVideosPipeline (sample_db\<lparr>likes := [commentLikeC]\<rparr>) bob = [videoOut videoV userAlice]"
    by (simp add: likedVideosPipeline_def lookupUnwind_def sample_db_def doc_defs id_defs)
  show ?thesis using made pipe by (simp add: getLikedVideos_def commentLikeC_def)
qed

text \<open>
  C4 (the code at the failing input). bob likes video V, then comment C of V. Both
  Likes carry the video reference V and match the lookup of \<open>toggleVideoLike\<close>. Two
  further calls of \<open>toggleVideoLike\<close> for V each delete one of them and each answer
  \<open>isLiked = false\<close>: a Like of V by bob existed before the two calls and none exists
  after them, and the Like of the comment is gone as well.
\<close>

theorem double_toggleVideoLike_loses_likes:
  "toggleVideoLike sample_db (Some bob) (toHexString vidV) lid1 =
     (Inr (200, ApiResponse 200 True ''Video liked successfully''),
      sample_db\<lparr>likes := [videoLikeV]\<rparr>) \<and>
   toggleCommentLike (sample_db\<lparr>likes := [videoLikeV]\<rparr>) (Some bob) (toHexString cidC) lid2 =
     (Inr (200, ApiResponse 200 True ''comment liked successfully''),
      sample_db\<lparr>likes := [videoLikeV, commentLikeC]\<rparr>) \<and>
   toggleVideoLike (sample_db\<lparr>likes := [videoLikeV, commentLikeC]\<rparr>) (Some bob) (toHexString vidV) lid3 =
     (Inr (200, ApiResponse 200 False ''Video unliked successfully''),
      sample_db\<lparr>likes := [commentLikeC]\<rparr>) \<and>
   toggleVideoLike (sample_db\<lparr>likes := [commentLikeC]\<rparr>) (Some bob) (toHexString vidV) lid3 =
     (Inr (200, ApiResponse 200 False ''Video unliked successfully''),
      sample_db\<lparr>likes := []\<rparr>)"
proof -
  have v: "find (\<lambda>v. video_id v = vidV) (videos sample_db) = Some videoV"
    by (simp add: sample_db_def videoV_def)
  have c: "find (\<lambda>c. comment_id c = cidC) (comments sample_db) = Some commentC"
    by (simp add: sample_db_def commentC_def)
  have s1: "toggleVideoLike sample_db (Some bob) (toHexString vidV) lid1 =
     (Inr (200, ApiResponse 200 True ''Video liked successfully''),
      sample_db\<lparr>likes := [videoLikeV]\<rparr>)"
    using v by (simp add: toggleVideoLike_def cast_vidV hex_vidV_nonempty videoLikeV_def)
       (simp add: sample_db_def)
  have s2: "toggleCommentLike (sample_db\<lparr>likes := [videoLikeV]\<rparr>) (Some bob) (toHexString cidC) lid2 =
     (Inr (200, ApiResponse 200 True ''comment liked successfully''),
      sample_db\<lparr>likes := [videoLikeV, commentLikeC]\<rparr>)"
    using c by (simp add: toggleCommentLike_def cast_cidC hex_cidC_nonempty videoLikeV_def
        commentLikeC_def commentC_def)
  have s3: "toggleVideoLike (sample_db\<lparr>likes := [videoLikeV, commentLikeC]\<rparr>) (Some bob) (toHexString vidV) lid3 =
     (Inr (200, ApiResponse 200 False ''Video unliked successfully''),
      sample_db\<lparr>likes := [commentLikeC]\<rparr>)"
    using v by (simp add: toggleVideoLike_def cast_vidV hex_vidV_nonempty videoLikeV_def
        commentLikeC_def)
  have s4: "toggleVideoLike (sample_db\<lparr>likes := [commentLikeC]\<rparr>) (Some bob) (toHexString vidV) lid3 =
     (Inr (200, ApiResponse 200 False ''Video unliked successfully''),
      sample_db\<lparr>likes := []\<rparr>)"
    using v by (simp add: toggleVideoLike_def cast_vidV hex_vidV_nonempty commentLikeC_def)
  show ?thesis using s1 s2 s3 s4 by simp
qed

section \<open>Comment likes stay consistent with their comments\<close>

text \<open>
  \<open>comment_likes_consistent\<close> holds of a database without likes, and every operation of the
  controllers that writes comments or likes preserves it. For \<open>addComment\<close> the identifier
  the database generates for the new comment is one no comment has yet.
\<close>

lemma toggleVideoLike_consistent:
  assumes "comment_likes_consistent d"
  shows "comment_likes_consistent (snd (toggleVideoLike d reqUser videoId newId))"
proof (rule consistentI)
  let ?d' = "snd (toggleVideoLike d reqUser videoId newId)"
  have c: "comments ?d' = comments d"
    by (simp add: toggleVideoLike_def split: option.splits)
  show "distinct (map comment_id (comments ?d'))"
    using consistent_distinct [OF assms] c by simp
  fix l cid assume l: "l \<in> set (likes ?d')" and lc: "like_comment l = Some cid"
  have "l \<in> set (likes d)"
    using l lc set_deleteOne_subset [of _ "likes d"]
    by (auto simp: toggleVideoLike_def split: option.splits if_splits)
  from consistentD [OF assms this lc] c
  show "\<exists>c\<in>set (comments ?d'). comment_id c = cid \<and> like_video l = Some (comment_video c)"
    by simp
qed

lemma toggleCommentLike_consistent:
  assumes "comment_likes_consistent d"
  shows "comment_likes_consistent (snd (toggleCommentLike d reqUser commentId newId))"
proof (rule consistentI)
  let ?d' = "snd (toggleCommentLike d reqUser commentId newId)"
  have c: "comments ?d' = comments d"
    by (simp add: toggleCommentLike_def split: option.splits)
  show "distinct (map comment_id (comments ?d'))"
    using consistent_distinct [OF assms] c by simp
  fix l cid assume l: "l \<in> set (likes ?d')" and lc: "like_comment l = Some cid"
  have "l \<in> set (likes d) \<or>
        (\<exists>cm. find (\<lambda>c. comment_id c = cid) (comments d) = Some cm \<and>
              like_video l = Some (comment_video cm))"
    using l lc set_deleteOne_subset [of _ "likes d"]
    by (auto simp: toggleCommentLike_def split: option.splits if_splits)
  then show "\<exists>c\<in>set (comments ?d'). comment_id c = cid \<and> like_video l = Some (comment_video c)"
  proof
    assume "l \<in> set (likes d)"
    from consistentD [OF assms this lc] c show ?thesis by simp
  next
    assume "\<exists>cm. find (\<lambda>c. comment_id c = cid) (comments d) = Some cm \<and>
              like_video l = Some (comment_video cm)"
    then show ?thesis using c by (auto simp: find_Some_iff)
  qed
qed

lemma addComment_consistent:
  assumes "comment_likes_consistent d" and "newId \<notin> comment_id ` set (comments d)"
  shows "comment_likes_consistent (snd (addComment d reqUser videoId text newId))"
proof (rule consistentI)
  let ?d' = "snd (addComment d reqUser videoId text newId)"
  have lk: "likes ?d' = likes d"
    by (simp add: addComment_def Let_def split: option.splits)
  have c: "set (comments d) \<subseteq> set (comments ?d')"
    by (auto simp: addComment_def Let_def split: option.splits)
  show "distinct (map comment_id (comments ?d'))"
    using consistent_distinct [OF assms(1)] assms(2)
    by (auto simp: addComment_def Let_def split: option.splits)
  fix l cid assume l: "l \<in> set (likes ?d')" and lc: "like_comment l = Some cid"
  from consistentD [OF assms(1) _ lc] l lk c
  show "\<exists>c\<in>set (comments ?d'). comment_id c = cid \<and> like_video l = Some (comment_video c)"
    by auto
qed

lemma updateComment_consistent:
  assumes "comment_likes_consistent d"
  shows "comment_likes_consistent (snd (updateComment d reqUser commentId text))"
proof (rule consistentI)
  let ?d' = "snd (updateComment d reqUser commentId text)"
  have lk: "likes ?d' = likes d"
    by (simp add: updateComment_def Let_def split: option.splits)
  have ids: "map comment_id (comments ?d') = map comment_id (comments d)"
    by (simp add: updateComment_def Let_def map_key_updateOne split: option.splits)
  show "distinct (map comment_id (comments ?d'))"
    using consistent_distinct [OF assms] ids by simp
  fix l cid assume l: "l \<in> set (likes ?d')" and lc: "like_comment l = Some cid"
  from consistentD [OF assms _ lc] l lk
  obtain c where c: "c \<in> set (comments d)" "comment_id c = cid" "like_video l = Some (comment_video c)"
    by auto
  have "\<exists>c'\<in>set (comments ?d'). comment_id c' = comment_id c \<and> comment_video c' = comment_video c"
  proof (cases "comments ?d' = comments d")
    case True with c(1) show ?thesis by auto
  next
    case False
    then obtain P where "comments ?d' = updateOne P (\<lambda>c. c\<lparr>content := text\<rparr>) (comments d)"
      by (auto simp: updateComment_def Let_def split: option.splits if_splits)
    with updateOne_member [OF c(1), of P "\<lambda>c. c\<lparr>content := text\<rparr>"]
    obtain c' where "c' \<in> set (comments ?d')" "c' = c \<or> c' = c\<lparr>content := text\<rparr>"
      by auto
    then have "c' \<in> set (comments ?d') \<and> comment_id c' = comment_id c \<and>
        comment_video c' = comment_video c"
      by auto
    then show ?thesis by blast
  qed
  with c show "\<exists>c\<in>set (comments ?d'). comment_id c = cid \<and> like_video l = Some (comment_video c)"
    by auto
qed

lemma deleteComment_consistent:
  assumes "comment_likes_consistent d"
  shows "comment_likes_consistent (snd (deleteComment d reqUser commentId))"
proof (cases "snd (deleteComment d reqUser commentId) = d")
  case True with assms show ?thesis by simp
next
  case False
  then obtain cid where d': "snd (deleteComment d reqUser commentId) =
      d\<lparr>likes := deleteMany (\<lambda>l. like_comment l = Some cid) (likes d),
        comments := deleteOne (\<lambda>c. comment_id c = cid) (comments d)\<rparr>"
    by (auto simp: deleteComment_def Let_def split: option.splits if_splits)
  show ?thesis unfolding d'
  proof (rule consistentI)
    show "distinct (map comment_id (comments (d\<lparr>likes := deleteMany (\<lambda>l. like_comment l = Some cid) (likes d),
        comments := deleteOne (\<lambda>c. comment_id c = cid) (comments d)\<rparr>)))"
      using consistent_distinct [OF assms] by (simp add: distinct_map_deleteOne)
    fix l cid'
    assume l: "l \<in> set (likes (d\<lparr>likes := deleteMany (\<lambda>l. like_comment l = Some cid) (likes d),
        comments := deleteOne (\<lambda>c. comment_id c = cid) (comments d)\<rparr>))"
      and lc: "like_comment l = Some cid'"
    then have l0: "l \<in> set (likes d)" and ne: "cid' \<noteq> cid"
      by (auto simp: deleteMany_def)
    from consistentD [OF assms l0 lc]
    obtain c where c: "c \<in> set (comments d)" "comment_id c = cid'" "like_video l = Some (comment_video c)"
      by auto
    have "c \<in> set (deleteOne (\<lambda>c. comment_id c = cid) (comments d))"
      using c(1) c(2) ne by (intro set_deleteOne_keep) auto
    with c show "\<exists>c\<in>set (comments (d\<lparr>likes := deleteMany (\<lambda>l. like_comment l = Some cid) (likes d),
        comments := deleteOne (\<lambda>c. comment_id c = cid) (comments d)\<rparr>)).
        comment_id c = cid' \<and> like_video l = Some (comment_video c)"
      by auto
  qed
qed

lemma deleteVideo_consistent:
  assumes "comment_likes_consistent d"
  shows "comment_likes_consistent (fst (snd (deleteVideo d reqUser videoId)))"
proof (cases "fst (snd (deleteVideo d reqUser videoId)) = d")
  case True with assms show ?thesis by simp
next
  case False
  then obtain vid where d': "fst (snd (deleteVideo d reqUser videoId)) =
      d\<lparr>likes := deleteMany (\<lambda>l. like_video l = Some vid) (likes d),
        comments := deleteMany (\<lambda>c. comment_video c = vid) (comments d),
        videos := deleteOne (\<lambda>x. video_id x = vid) (videos d)\<rparr>"
    by (auto simp: deleteVideo_def Let_def split: option.splits if_splits)
  show ?thesis unfolding d'
  proof (rule consistentI)
    show "distinct (map comment_id (comments (d\<lparr>likes := deleteMany (\<lambda>l. like_video l = Some vid) (likes d),
        comments := deleteMany (\<lambda>c. comment_video c = vid) (comments d),
        videos := deleteOne (\<lambda>x. video_id x = vid) (videos d)\<rparr>)))"
      using consistent_distinct [OF assms] by (simp add: deleteMany_def distinct_map_filter)
    fix l cid'
    assume l: "l \<in> set (likes (d\<lparr>likes := deleteMany (\<lambda>l. like_video l = Some vid) (likes d),
        comments := deleteMany (\<lambda>c. comment_video c = vid) (comments d),
        videos := deleteOne (\<lambda>x. video_id x = vid) (videos d)\<rparr>))"
      and lc: "like_comment l = Some cid'"
    then have l0: "l \<in> set (likes d)" and ne: "like_video l \<noteq> Some vid"
      by (auto simp: deleteMany_def)
    from consistentD [OF assms l0 lc]
    obtain c where c: "c \<in> set (comments d)" "comment_id c = cid'" "like_video l = Some (comment_video c)"
      by auto
    with ne have "comment_video c \<noteq> vid" by auto
    with c show "\<exists>c\<in>set (comments (d\<lparr>likes := deleteMany (\<lambda>l. like_video l = Some vid) (likes d),
        comments := deleteMany (\<lambda>c. comment_video c = vid) (comments d),
        videos := deleteOne (\<lambda>x. video_id x = vid) (videos d)\<rparr>)).
        comment_id c = cid' \<and> like_video l = Some (comment_video c)"
      by (auto simp: deleteMany_def)
  qed
qed

text \<open>Hence the invariant holds after any sequence of requests served from a database
  that has no comments and no likes yet.\<close>

lemma getVideoById_keeps_likes:
  "comments (snd (getVideoById d videoId)) = comments d \<and>
   likes (snd (getVideoById d videoId)) = likes d"
  by (simp add: getVideoById_def Let_def split: option.splits list.splits)

lemma updateVideo_keeps_likes:
  "comments (fst (snd (updateVideo d u videoId t ds vp tp venv tenv))) = comments d \<and>
   likes (fst (snd (updateVideo d u videoId t ds vp tp venv tenv))) = likes d"
proof -
  obtain res d' trace where run: "updateVideo d u videoId t ds vp tp venv tenv = (res, d', trace)"
    by (metis prod_cases3)
  show ?thesis
  proof (cases "isl res")
    case True
    with updateVideo_cases [OF run] have "d' = d" by blast
    with run show ?thesis by simp
  next
    case False
    have "\<exists>vs. d' = d\<lparr>videos := vs\<rparr>"
    proof (cases "videoId = [] \<or> castObjectId videoId = None \<or>
        (t = [] \<and> ds = [] \<and> vp = [] \<and> tp = [])")
      case True
      from updateVideo_rejected [OF True, of d u venv tenv] run False show ?thesis by auto
    next
      case ok: False
      then obtain vid where ne: "videoId \<noteq> []" and vid: "castObjectId videoId = Some vid"
        and some: "\<not> (t = [] \<and> ds = [] \<and> vp = [] \<and> tp = [])" by auto
      show ?thesis
      proof (cases "find (\<lambda>v. video_id v = vid) (videos d)")
        case None
        from updateVideo_not_found [OF ne vid some None, of u venv tenv] run False
        show ?thesis by auto
      next
        case (Some v)
        show ?thesis
        proof (cases "map_option toHexString u = Some (toHexString (video_owner v))")
          case no: False
          from updateVideo_forbidden [OF ne vid some Some no, of venv tenv] run False
          show ?thesis by auto
        next
          case True
          from updateVideo_authorized [OF ne vid some Some True, of venv tenv] run False
          show ?thesis by (auto split: prod.splits sum.splits)
        qed
      qed
    qed
    with run show ?thesis by auto
  qed
qed

lemma toggleSubscription_keeps_likes:
  "comments (snd (toggleSubscription d u channelId newId)) = comments d \<and>
   likes (snd (toggleSubscription d u channelId newId)) = likes d"
  by (simp add: toggleSubscription_def split: option.splits)

lemma consistent_cong:
  "comments d' = comments d \<Longrightarrow> likes d' = likes d \<Longrightarrow>
   comment_likes_consistent d \<Longrightarrow> comment_likes_consistent d'"
  by (simp add: comment_likes_consistent_def cong: option.case_cong)

lemma handle_consistent:
  assumes "comment_likes_consistent d" and "freshIds d r"
  shows "comment_likes_consistent (handle d r)"
proof (cases r)
  case (ToggleVideoLike u videoId newId)
  with assms show ?thesis by (simp add: toggleVideoLike_consistent)
next
  case (ToggleCommentLike u commentId newId)
  with assms show ?thesis by (simp add: toggleCommentLike_consistent)
next
  case (AddComment u videoId body newId)
  with assms show ?thesis by (simp add: addComment_consistent)
next
  case (UpdateComment u commentId body)
  with assms show ?thesis by (simp add: updateComment_consistent)
next
  case (DeleteComment u commentId)
  with assms show ?thesis by (simp add: deleteComment_consistent)
next
  case (DeleteVideo u videoId)
  with assms show ?thesis by (simp add: deleteVideo_consistent)
next
  case (GetVideoById videoId)
  with assms(1) getVideoById_keeps_likes [of d videoId] show ?thesis
    by (auto intro: consistent_cong)
next
  case (UpdateVideo u videoId t ds vp tp venv tenv)
  with assms(1) updateVideo_keeps_likes [of d u videoId t ds vp tp venv tenv] show ?thesis
    by (auto intro: consistent_cong)
next
  case (ToggleSubscription u channelId newId)
  with assms(1) toggleSubscription_keeps_likes [of d u channelId newId] show ?thesis
    by (auto intro: consistent_cong)
qed

lemma serve_consistent:
  "comment_likes_consistent d \<Longrightarrow> freshRun d rs \<Longrightarrow> comment_likes_consistent (serve d rs)"
proof (induction rs arbitrary: d)
  case Nil
  then show ?case by simp
next
  case (Cons r rs)
  then show ?case by (simp add: handle_consistent)
qed

lemma serve_from_empty:
  "comments d = [] \<Longrightarrow> likes d = [] \<Longrightarrow> freshRun d rs \<Longrightarrow>
   comment_likes_consistent (serve d rs)"
  by (rule serve_consistent) (simp_all add: comment_likes_consistent_def)

section \<open>Deleting a video\<close>

text \<open>
  C3. In a database where every Like of a comment carries the video reference of that
  comment (as every Like created by \<open>toggleCommentLike\<close> does), \<open>deleteVideo\<close> called by
  the owner of an existing video V succeeds, removes exactly the comments that reference
  V, exactly the Likes associated with V (Likes of V and Likes of V's comments) and
  exactly one video row; no remaining Like references V or one of V's former comments.
\<close>

theorem deleteVideo_cascade:
  assumes wf: "comment_likes_consistent d"
    and cast: "castObjectId videoId = Some vid"
    and found: "find (\<lambda>v. video_id v = vid) (videos d) = Some v"
    and own: "video_owner v = caller"
  shows "\<exists>d' t. deleteVideo d (Some caller) videoId =
           (Inr (200, ApiResponse 200 1 ''Video deleted successfully''), d', t)
     \<and> comments d' = filter (\<lambda>c. comment_video c \<noteq> vid) (comments d)
     \<and> length (comments d') + length (filter (\<lambda>c. comment_video c = vid) (comments d))
         = length (comments d)
     \<and> likes d' = filter (\<lambda>l. \<not> associatedLike d vid l) (likes d)
     \<and> length (likes d') + length (filter (associatedLike d vid) (likes d)) = length (likes d)
     \<and> videos d' = deleteOne (\<lambda>x. video_id x = vid) (videos d)
     \<and> length (videos d') + 1 = length (videos d)
     \<and> list_all (\<lambda>l. like_video l \<noteq> Some vid \<and>
          list_all (\<lambda>c. comment_video c = vid \<longrightarrow> like_comment l \<noteq> Some (comment_id c)) (comments d))
         (likes d')"
proof -
  let ?d' = "d\<lparr>likes := deleteMany (\<lambda>l. like_video l = Some vid) (likes d),
               comments := deleteMany (\<lambda>c. comment_video c = vid) (comments d),
               videos := deleteOne (\<lambda>x. video_id x = vid) (videos d)\<rparr>"
  let ?t = "deleteFromCloudinary (videoPublicId v) ''video'' @
            deleteFromCloudinary (thumbnailPublicId v) ''image''"
  have ne: "videoId \<noteq> []" using cast by (rule castObjectId_nonempty)
  have ex: "\<exists>x\<in>set (videos d). video_id x = vid"
    using found by (auto simp: find_Some_iff)
  then have lex: "list_ex (\<lambda>x. video_id x = vid) (videos d)" by (simp add: list_ex_iff)
  have run: "deleteVideo d (Some caller) videoId =
      (Inr (200, ApiResponse 200 1 ''Video deleted successfully''), ?d', ?t)"
    using cast found own ne lex by (simp add: deleteVideo_def Let_def)
  have likes_eq: "likes ?d' = filter (\<lambda>l. \<not> associatedLike d vid l) (likes d)"
    using consistent_associated [OF wf] by (auto simp: deleteMany_def intro: filter_cong)
  have cnt: "length (filter (\<lambda>l. \<not> associatedLike d vid l) (likes d))
       + length (filter (associatedLike d vid) (likes d)) = length (likes d)"
    by (rule length_filter_split)
  have ccnt: "length (filter (\<lambda>c. \<not> comment_video c = vid) (comments d))
       + length (filter (\<lambda>c. comment_video c = vid) (comments d)) = length (comments d)"
    by (rule length_filter_split)
  have vlen: "Suc (length (deleteOne (\<lambda>x. video_id x = vid) (videos d))) = length (videos d)"
    using ex by (rule length_deleteOne)
  have clean: "list_all (\<lambda>l. like_video l \<noteq> Some vid \<and>
          list_all (\<lambda>c. comment_video c = vid \<longrightarrow> like_comment l \<noteq> Some (comment_id c)) (comments d))
         (filter (\<lambda>l. \<not> associatedLike d vid l) (likes d))"
    by (auto simp: list_all_iff associatedLike_def list_ex_iff)
  show ?thesis
    apply (rule exI [of _ ?d'], rule exI [of _ ?t])
    using run likes_eq cnt ccnt vlen clean
    by (simp add: deleteMany_def)
qed

theorem deleteVideo_cascade_witness:
  "comment_likes_consistent cascade_db \<and>
   length (filter (\<lambda>c. comment_video c = vidV) (comments cascade_db)) = 1 \<and>
   length (filter (associatedLike cascade_db vidV) (likes cascade_db)) = 2 \<and>
   (\<exists>d' t. deleteVideo cascade_db (Some alice) (toHexString vidV) =
           (Inr (200, ApiResponse 200 1 ''Video deleted successfully''), d', t)
      \<and> comments d' = [commentD] \<and> likes d' = [commentLikeD] \<and> videos d' = [videoW])"
proof -
  have wf: "comment_likes_consistent cascade_db"
    by (simp add: comment_likes_consistent_def cascade_db_def sample_db_def doc_defs id_defs)
  have found: "find (\<lambda>v. video_id v = vidV) (videos cascade_db) = Some videoV"
    by (simp add: cascade_db_def sample_db_def videoV_def)
  have own: "video_owner videoV = alice" by (simp add: videoV_def)
  have n: "filter (\<lambda>c. comment_video c = vidV) (comments cascade_db) = [commentC]"
    by (simp add: cascade_db_def sample_db_def doc_defs id_defs)
  have n': "filter (\<lambda>c. comment_video c \<noteq> vidV) (comments cascade_db) = [commentD]"
    by (simp add: cascade_db_def sample_db_def doc_defs id_defs)
  have m: "filter (associatedLike cascade_db vidV) (likes cascade_db) = [videoLikeV, commentLikeC]"
    by (simp add: associatedLike_def cascade_db_def sample_db_def doc_defs id_defs)
  have m': "filter (\<lambda>l. \<not> associatedLike cascade_db vidV l) (likes cascade_db) = [commentLikeD]"
    by (simp add: associatedLike_def cascade_db_def sample_db_def doc_defs id_defs)
  have v: "deleteOne (\<lambda>x. video_id x = vidV) (videos cascade_db) = [videoW]"
    by (simp add: cascade_db_def sample_db_def doc_defs id_defs)
  from deleteVideo_cascade [OF wf cast_vidV found own]
  show ?thesis using wf n n' m m' v by auto
qed

section \<open>Fetching a video\<close>

text \<open>
  C5 (the code at the failing input). Video V exists and the request carries its valid
  id, but the user document of its owner is missing. The owner join followed by
  \<open>$unwind\<close> drops V from the aggregation, so \<open>getVideoById\<close> answers 404
  \<open>Video not found\<close> and counts no view.
\<close>

theorem getVideoById_owner_missing:
  "castObjectId (toHexString vidV) = Some vidV \<and>
   find (\<lambda>x. video_id x = vidV) (videos orphan_db) = Some videoV \<and>
   getVideoById orphan_db (toHexString vidV) = (Inl (ApiError 404 ''Video not found''), orphan_db)"
proof -
  have p: "videoPipeline orphan_db vidV = []"
    by (simp add: videoPipeline_def lookupUnwind_def orphan_db_def sample_db_def doc_defs id_defs)
  have f: "find (\<lambda>x. video_id x = vidV) (videos orphan_db) = Some videoV"
    by (simp add: orphan_db_def sample_db_def videoV_def)
  show ?thesis using p f by (simp add: cast_vidV getVideoById_def hex_vidV_nonempty)
qed

text \<open>
  What the handler does otherwise. When the owner of the video exists and the counter
  is below \<open>2^53\<close>, the stored counter of that video grows by exactly 1, every other video
  stays as it was and the answer carries the new value; a malformed id gives a 400 and
  an id of no video a 404, with the database unchanged. At \<open>2^53\<close> the counter stays
  where it is.
\<close>

lemma incNumber_exact: "n < 2 ^ 53 \<Longrightarrow> incNumber n = n + 1"
proof (cases "n + 1 < 2 ^ 53")
  case True
  then show ?thesis by (simp add: incNumber_def toDouble_def)
next
  case False
  assume "n < 2 ^ 53"
  with False have "n = 2 ^ 53 - 1" by simp
  then show ?thesis by (simp add: incNumber_def toDouble_def Let_def)
qed

lemma incNumber_stalls: "incNumber (2 ^ 53) = 2 ^ 53"
  by (simp add: incNumber_def toDouble_def Let_def)

lemma getVideoById_counts_view:
  "(castObjectId videoId = Some vid \<and>
    find (\<lambda>x. video_id x = vid) (videos d) = Some v \<and>
    find (\<lambda>u. user_id u = video_owner v) (users d) = Some u \<and>
    views v < 2 ^ 53 \<longrightarrow>
      getVideoById d videoId =
        (Inr (200, ApiResponse 200 (videoOut (v\<lparr>views := views v + 1\<rparr>) u) ''Video fetched successfully''),
         d\<lparr>videos := updateOne (\<lambda>x. video_id x = vid) (\<lambda>x. x\<lparr>views := incNumber (views x)\<rparr>) (videos d)\<rparr>)
      \<and> find (\<lambda>x. video_id x = vid)
           (updateOne (\<lambda>x. video_id x = vid) (\<lambda>x. x\<lparr>views := incNumber (views x)\<rparr>) (videos d))
          = Some (v\<lparr>views := views v + 1\<rparr>)
      \<and> (\<forall>other. other \<noteq> vid \<longrightarrow>
            find (\<lambda>x. video_id x = other)
              (updateOne (\<lambda>x. video_id x = vid) (\<lambda>x. x\<lparr>views := incNumber (views x)\<rparr>) (videos d))
            = find (\<lambda>x. video_id x = other) (videos d)))
   \<and> (castObjectId videoId = None \<longrightarrow>
        (\<exists>m. getVideoById d videoId = (Inl (ApiError 400 m), d)))
   \<and> (castObjectId videoId = Some vid \<and> find (\<lambda>x. video_id x = vid) (videos d) = None \<longrightarrow>
        getVideoById d videoId = (Inl (ApiError 404 ''Video not found''), d))"
proof (intro conjI impI)
  assume a: "castObjectId videoId = Some vid \<and>
    find (\<lambda>x. video_id x = vid) (videos d) = Some v \<and>
    find (\<lambda>u. user_id u = video_owner v) (users d) = Some u \<and>
    views v < 2 ^ 53"
  then have ne: "videoId \<noteq> []" by (auto dest: castObjectId_nonempty)
  from a have inc: "incNumber (views v) = views v + 1" by (simp add: incNumber_exact)
  from a videoPipeline_head obtain rest where p: "videoPipeline d vid = videoOut v u # rest"
    by blast
  show "getVideoById d videoId =
        (Inr (200, ApiResponse 200 (videoOut (v\<lparr>views := views v + 1\<rparr>) u) ''Video fetched successfully''),
         d\<lparr>videos := updateOne (\<lambda>x. video_id x = vid) (\<lambda>x. x\<lparr>views := incNumber (views x)\<rparr>) (videos d)\<rparr>)"
    using a ne p inc by (simp add: getVideoById_def videoOut_def)
  show "find (\<lambda>x. video_id x = vid)
           (updateOne (\<lambda>x. video_id x = vid) (\<lambda>x. x\<lparr>views := incNumber (views x)\<rparr>) (videos d))
          = Some (v\<lparr>views := views v + 1\<rparr>)"
    using a inc by (simp add: find_updateOne)
  show "\<forall>other. other \<noteq> vid \<longrightarrow>
            find (\<lambda>x. video_id x = other)
              (updateOne (\<lambda>x. video_id x = vid) (\<lambda>x. x\<lparr>views := incNumber (views x)\<rparr>) (videos d))
            = find (\<lambda>x. video_id x = other) (videos d)"
    by (auto intro!: find_updateOne_other)
next
  assume "castObjectId videoId = None"
  then show "\<exists>m. getVideoById d videoId = (Inl (ApiError 400 m), d)"
    by (rule getVideoById_invalid)
next
  assume a: "castObjectId videoId = Some vid \<and> find (\<lambda>x. video_id x = vid) (videos d) = None"
  then have ne: "videoId \<noteq> []" by (auto dest: castObjectId_nonempty)
  show "getVideoById d videoId = (Inl (ApiError 404 ''Video not found''), d)"
    using a ne by (simp add: getVideoById_def videoPipeline_absent)
qed

lemma getVideoById_counts_view_example:
  "getVideoById sample_db (toHexString vidV) =
     (Inr (200, ApiResponse 200 (videoOut (videoV\<lparr>views := 8\<rparr>) userAlice) ''Video fetched successfully''),
      sample_db\<lparr>videos := [videoV\<lparr>views := 8\<rparr>, videoW]\<rparr>)
   \<and> (\<exists>m. getVideoById sample_db ''not-an-id'' = (Inl (ApiError 400 m), sample_db))
   \<and> getVideoById sample_db (toHexString lid1) = (Inl (ApiError 404 ''Video not found''), sample_db)"
proof -
  have f: "find (\<lambda>x. video_id x = vidV) (videos sample_db) = Some videoV"
    by (simp add: sample_db_def videoV_def)
  have o: "find (\<lambda>u. user_id u = video_owner videoV) (users sample_db) = Some userAlice"
    by (simp add: sample_db_def videoV_def userAlice_def)
  have n: "find (\<lambda>x. video_id x = lid1) (videos sample_db) = None"
    by (simp add: sample_db_def doc_defs id_defs)
  have small: "views videoV < 2 ^ 53" by (simp add: videoV_def)
  have u: "updateOne (\<lambda>x. video_id x = vidV) (\<lambda>x. x\<lparr>views := incNumber (views x)\<rparr>) (videos sample_db)
       = [videoV\<lparr>views := 8\<rparr>, videoW]"
    using incNumber_exact [of 7] by (simp add: sample_db_def videoV_def)
  have v8: "videoV\<lparr>views := views videoV + 1\<rparr> = videoV\<lparr>views := 8\<rparr>"
    by (simp add: videoV_def)
  from getVideoById_counts_view [of "toHexString vidV" vidV sample_db videoV userAlice]
       getVideoById_counts_view [of "''not-an-id''" vidV sample_db videoV userAlice]
       getVideoById_counts_view [of "toHexString lid1" lid1 sample_db videoV userAlice]
  show ?thesis
    using f o n u v8 small cast_vidV cast_malformed cast_lid1 by simp
qed

lemma getVideoById_counter_stalls:
  "getVideoById saturated_db (toHexString vidV) =
     (Inr (200, ApiResponse 200 (videoOut (videoV\<lparr>views := 2 ^ 53\<rparr>) userAlice)
             ''Video fetched successfully''), saturated_db)"
proof -
  have f: "find (\<lambda>x. video_id x = vidV) (videos saturated_db) = Some (videoV\<lparr>views := 2 ^ 53\<rparr>)"
    by (simp add: saturated_db_def videoV_def)
  have p: "videoPipeline saturated_db vidV = [videoOut (videoV\<lparr>views := 2 ^ 53\<rparr>) userAlice]"
    by (simp add: videoPipeline_def lookupUnwind_def saturated_db_def sample_db_def doc_defs id_defs)
  have u: "updateOne (\<lambda>x. video_id x = vidV) (\<lambda>x. x\<lparr>views := incNumber (views x)\<rparr>) (videos saturated_db)
       = videos saturated_db"
    using incNumber_stalls by (simp add: saturated_db_def videoV_def)
  have same: "saturated_db\<lparr>videos := videos saturated_db\<rparr> = saturated_db" by simp
  show ?thesis
    using f p u same incNumber_stalls
    by (simp add: getVideoById_def cast_vidV hex_vidV_nonempty videoOut_def)
qed

section \<open>Updating a video\<close>

text \<open>
  C6. In \<open>updateVideo\<close>, when the upload of a file present in the request fails, the call
  ends in an error and the media store has received no deletion for that field. Every
  deletion the media store receives is for the video or the thumbnail asset, follows the
  upload of the replacement in the trace, and is issued only if that upload succeeded.
\<close>

theorem updateVideo_upload_before_delete:
  assumes run: "updateVideo d reqUser videoId title' description' vpath tpath venv tenv = (res, d', trace)"
  shows "(vpath \<noteq> [] \<and> \<not> uploadAccepted (fst (uploadOnCloudinary vpath venv)) \<longrightarrow>
            isl res \<and> (\<forall>p. DestroyCall p ''video'' \<notin> set trace))
       \<and> (tpath \<noteq> [] \<and> \<not> uploadAccepted (fst (uploadOnCloudinary tpath tenv)) \<longrightarrow>
            isl res \<and> (\<forall>p. DestroyCall p ''image'' \<notin> set trace))
       \<and> (\<forall>p. DestroyCall p ''video'' \<in> set trace \<longrightarrow>
            vpath \<noteq> [] \<and> uploadAccepted (fst (uploadOnCloudinary vpath venv)) \<and>
            (\<exists>pre post. trace = pre @ DestroyCall p ''video'' # post \<and> UploadCall vpath \<in> set pre))
       \<and> (\<forall>p. DestroyCall p ''image'' \<in> set trace \<longrightarrow>
            tpath \<noteq> [] \<and> uploadAccepted (fst (uploadOnCloudinary tpath tenv)) \<and>
            (\<exists>pre post. trace = pre @ DestroyCall p ''image'' # post \<and> UploadCall tpath \<in> set pre))
       \<and> (\<forall>p k. DestroyCall p k \<in> set trace \<longrightarrow> k = ''video'' \<or> k = ''image'')"
proof -
  obtain T1 T2 where shape: "trace = T1 @ T2"
    and src1: "T1 = [] \<or> (\<exists>v uf. T1 = snd (videoFileStep v vpath venv uf))"
    and src2: "T2 = [] \<or> (\<exists>v uf. T2 = snd (thumbnailStep v tpath tenv uf))"
    and fail1: "vpath \<noteq> [] \<and> \<not> uploadAccepted (fst (uploadOnCloudinary vpath venv)) \<Longrightarrow> isl res \<and> T2 = []"
    and fail2: "tpath \<noteq> [] \<and> \<not> uploadAccepted (fst (uploadOnCloudinary tpath tenv)) \<Longrightarrow> isl res"
  proof -
    from updateVideo_cases [OF run] consider
        (A) "isl res" "trace = []"
      | (B) v uf where "isl res" "isl (fst (videoFileStep v vpath venv uf))"
          "trace = snd (videoFileStep v vpath venv uf)"
      | (C) v uf uf1 where "isl res" "\<not> isl (fst (videoFileStep v vpath venv uf))"
          "trace = snd (videoFileStep v vpath venv uf) @ snd (thumbnailStep v tpath tenv uf1)"
      | (D) v uf uf1 where "\<not> isl (fst (videoFileStep v vpath venv uf))"
          "\<not> isl (fst (thumbnailStep v tpath tenv uf1))"
          "trace = snd (videoFileStep v vpath venv uf) @ snd (thumbnailStep v tpath tenv uf1)"
      by blast
    then show ?thesis
    proof cases
      case A
      show ?thesis by (rule that [of "[]" "[]"]) (simp_all add: A)
    next
      case B
      show ?thesis
        by (rule that [of "snd (videoFileStep v vpath venv uf)" "[]"]) (use B in auto)
    next
      case C
      show ?thesis
        by (rule that [of "snd (videoFileStep v vpath venv uf)" "snd (thumbnailStep v tpath tenv uf1)"])
           (use C in \<open>auto simp: videoFileStep_fails\<close>)
    next
      case D
      show ?thesis
        by (rule that [of "snd (videoFileStep v vpath venv uf)" "snd (thumbnailStep v tpath tenv uf1)"])
           (use D in \<open>auto simp: videoFileStep_fails thumbnailStep_fails\<close>)
    qed
  qed
  have in1: "\<And>p k. DestroyCall p k \<in> set T1 \<Longrightarrow>
      k = ''video'' \<and> vpath \<noteq> [] \<and> uploadAccepted (fst (uploadOnCloudinary vpath venv)) \<and>
      T1 = [UploadCall vpath, DestroyCall p ''video'']"
    using src1 videoFileStep_destroy by fastforce
  have in2: "\<And>p k. DestroyCall p k \<in> set T2 \<Longrightarrow>
      k = ''image'' \<and> tpath \<noteq> [] \<and> uploadAccepted (fst (uploadOnCloudinary tpath tenv)) \<and>
      T2 = [UploadCall tpath, DestroyCall p ''image'']"
    using src2 thumbnailStep_destroy by fastforce
  have c1: "vpath \<noteq> [] \<and> \<not> uploadAccepted (fst (uploadOnCloudinary vpath venv)) \<longrightarrow>
            isl res \<and> (\<forall>p. DestroyCall p ''video'' \<notin> set trace)"
    using fail1 in1 shape by auto
  have c2: "tpath \<noteq> [] \<and> \<not> uploadAccepted (fst (uploadOnCloudinary tpath tenv)) \<longrightarrow>
            isl res \<and> (\<forall>p. DestroyCall p ''image'' \<notin> set trace)"
    using fail2 in1 in2 shape by auto
  have c3: "\<forall>p. DestroyCall p ''video'' \<in> set trace \<longrightarrow>
            vpath \<noteq> [] \<and> uploadAccepted (fst (uploadOnCloudinary vpath venv)) \<and>
            (\<exists>pre post. trace = pre @ DestroyCall p ''video'' # post \<and> UploadCall vpath \<in> set pre)"
  proof (intro allI impI)
    fix p assume "DestroyCall p ''video'' \<in> set trace"
    with shape in2 have "DestroyCall p ''video'' \<in> set T1" by auto
    from in1 [OF this] have a: "vpath \<noteq> []" "uploadAccepted (fst (uploadOnCloudinary vpath venv))"
      and t: "T1 = [UploadCall vpath, DestroyCall p ''video'']" by simp_all
    have "trace = [UploadCall vpath] @ DestroyCall p ''video'' # T2 \<and> UploadCall vpath \<in> set [UploadCall vpath]"
      using shape t by simp
    then have "\<exists>pre post. trace = pre @ DestroyCall p ''video'' # post \<and> UploadCall vpath \<in> set pre"
      by blast
    with a show "vpath \<noteq> [] \<and> uploadAccepted (fst (uploadOnCloudinary vpath venv)) \<and>
            (\<exists>pre post. trace = pre @ DestroyCall p ''video'' # post \<and> UploadCall vpath \<in> set pre)"
      by simp
  qed
  have c4: "\<forall>p. DestroyCall p ''image'' \<in> set trace \<longrightarrow>
            tpath \<noteq> [] \<and> uploadAccepted (fst (uploadOnCloudinary tpath tenv)) \<and>
            (\<exists>pre post. trace = pre @ DestroyCall p ''image'' # post \<and> UploadCall tpath \<in> set pre)"
  proof (intro allI impI)
    fix p assume "DestroyCall p ''image'' \<in> set trace"
    with shape in1 have "DestroyCall p ''image'' \<in> set T2" by auto
    from in2 [OF this] have a: "tpath \<noteq> []" "uploadAccepted (fst (uploadOnCloudinary tpath tenv))"
      and t: "T2 = [UploadCall tpath, DestroyCall p ''image'']" by simp_all
    have "trace = (T1 @ [UploadCall tpath]) @ DestroyCall p ''image'' # [] \<and>
          UploadCall tpath \<in> set (T1 @ [UploadCall tpath])"
      using shape t by simp
    then have "\<exists>pre post. trace = pre @ DestroyCall p ''image'' # post \<and> UploadCall tpath \<in> set pre"
      by blast
    with a show "tpath \<noteq> [] \<and> uploadAccepted (fst (uploadOnCloudinary tpath tenv)) \<and>
            (\<exists>pre post. trace = pre @ DestroyCall p ''image'' # post \<and> UploadCall tpath \<in> set pre)"
      by simp
  qed
  have c5: "\<forall>p k. DestroyCall p k \<in> set trace \<longrightarrow> k = ''video'' \<or> k = ''image''"
    using shape in1 in2 by auto
  from c1 c2 c3 c4 c5 show ?thesis by blast
qed

theorem updateVideo_upload_before_delete_witness:
  "updateVideo sample_db (Some alice) (toHexString vidV) [] [] ''/tmp/v.mp4'' ''/tmp/t.png''
      uploadFails uploadOkImage =
     (Inl (ApiError 500 ''Error while uploading new video file to Cloudinary (no URL or public_id)''),
      sample_db, [UploadCall ''/tmp/v.mp4''])
   \<and> \<not> uploadAccepted (fst (uploadOnCloudinary ''/tmp/v.mp4'' uploadFails))
   \<and> (\<forall>p. DestroyCall p ''video'' \<notin> set [UploadCall ''/tmp/v.mp4''])
   \<and> (\<exists>r d'. updateVideo sample_db (Some alice) (toHexString vidV) [] [] ''/tmp/v.mp4'' ''/tmp/t.png''
          uploadOk uploadOkImage = (Inr r, d',
            [UploadCall ''/tmp/v.mp4'', DestroyCall ''v1'' ''video'',
             UploadCall ''/tmp/t.png'', DestroyCall ''t1'' ''image''])
        \<and> uploadAccepted (fst (uploadOnCloudinary ''/tmp/v.mp4'' uploadOk))
        \<and> uploadAccepted (fst (uploadOnCloudinary ''/tmp/t.png'' uploadOkImage)))"
proof -
  from updateVideo_success_run obtain r d' where ok:
    "updateVideo sample_db (Some alice) (toHexString vidV) [] [] ''/tmp/v.mp4'' ''/tmp/t.png''
      uploadOk uploadOkImage =
     (Inr r, d', [UploadCall ''/tmp/v.mp4'', DestroyCall ''v1'' ''video'',
       UploadCall ''/tmp/t.png'', DestroyCall ''t1'' ''image''])" by blast
  have nacc: "\<not> uploadAccepted (fst (uploadOnCloudinary ''/tmp/v.mp4'' uploadFails))"
    by (simp add: uploadAccepted_def uploadOnCloudinary_def uploadFails_def)
  from updateVideo_upload_before_delete [OF updateVideo_video_failure_run] nacc
  have a: "\<forall>p. DestroyCall p ''video'' \<notin> set [UploadCall ''/tmp/v.mp4'']" by simp
  from updateVideo_upload_before_delete [OF ok]
  have b: "uploadAccepted (fst (uploadOnCloudinary ''/tmp/v.mp4'' uploadOk))
        \<and> uploadAccepted (fst (uploadOnCloudinary ''/tmp/t.png'' uploadOkImage))"
    by simp
  from updateVideo_video_failure_run nacc a ok b show ?thesis by auto
qed

text \<open>
  C10. \<open>updateVideo\<close> writes to the database once, after every requested upload has
  succeeded: whenever the call ends in an error the database is the one it started with,
  and whenever it succeeds each file present in the request was uploaded successfully.
  (The witness shows an error after the old video asset has already been deleted from
  the media store.)
\<close>

theorem updateVideo_error_keeps_document:
  assumes run: "updateVideo d reqUser videoId title' description' vpath tpath venv tenv = (res, d', trace)"
  shows "(isl res \<longrightarrow> d' = d) \<and>
         (\<not> isl res \<longrightarrow>
            (vpath \<noteq> [] \<longrightarrow> uploadAccepted (fst (uploadOnCloudinary vpath venv))) \<and>
            (tpath \<noteq> [] \<longrightarrow> uploadAccepted (fst (uploadOnCloudinary tpath tenv))))"
  using updateVideo_cases [OF run]
  by (elim disjE exE conjE) (auto simp: videoFileStep_fails thumbnailStep_fails)

theorem updateVideo_error_keeps_document_witness:
  "updateVideo sample_db (Some alice) (toHexString vidV) ''New title'' [] ''/tmp/v.mp4'' ''/tmp/t.png''
      uploadOk uploadFails =
     (Inl (ApiError 500 ''Error while uploading new thumbnail to Cloudinary''), sample_db,
      [UploadCall ''/tmp/v.mp4'', DestroyCall ''v1'' ''video'', UploadCall ''/tmp/t.png''])
   \<and> isl (Inl (ApiError 500 ''Error while uploading new thumbnail to Cloudinary'') :: video reply)
   \<and> (\<exists>r d'. updateVideo sample_db (Some alice) (toHexString vidV) [] [] ''/tmp/v.mp4'' ''/tmp/t.png''
          uploadOk uploadOkImage = (Inr r, d',
            [UploadCall ''/tmp/v.mp4'', DestroyCall ''v1'' ''video'',
             UploadCall ''/tmp/t.png'', DestroyCall ''t1'' ''image''])
        \<and> uploadAccepted (fst (uploadOnCloudinary ''/tmp/v.mp4'' uploadOk))
        \<and> uploadAccepted (fst (uploadOnCloudinary ''/tmp/t.png'' uploadOkImage)))"
proof -
  from updateVideo_success_run obtain r d' where ok:
    "updateVideo sample_db (Some alice) (toHexString vidV) [] [] ''/tmp/v.mp4'' ''/tmp/t.png''
      uploadOk uploadOkImage =
     (Inr r, d', [UploadCall ''/tmp/v.mp4'', DestroyCall ''v1'' ''video'',
       UploadCall ''/tmp/t.png'', DestroyCall ''t1'' ''image''])" by blast
  from updateVideo_error_keeps_document [OF updateVideo_thumbnail_failure_run]
       updateVideo_error_keeps_document [OF ok]
  have "uploadAccepted (fst (uploadOnCloudinary ''/tmp/v.mp4'' uploadOk))
        \<and> uploadAccepted (fst (uploadOnCloudinary ''/tmp/t.png'' uploadOkImage))"
    by simp
  with ok updateVideo_thumbnail_failure_run show ?thesis by auto
qed

section \<open>Subscriptions\<close>

text \<open>
  C7 (as amended). Every entry that \<open>getUserChannelSubscribers\<close> returns has exactly the
  fields \<open>_id\<close>, \<open>username\<close>, \<open>email\<close>, \<open>avatar\<close> and \<open>fullName\<close>, in this order, with the
  values of the user record of a subscriber of the channel; and every subscriber of the
  channel whose user record exists is returned.
\<close>

theorem getUserChannelSubscribers_fields:
  assumes "getUserChannelSubscribers d channelId = Inr (st, ApiResponse code items msg)"
  shows "st = 200 \<and> code = 200 \<and>
    (\<exists>cid. castObjectId channelId = Some cid \<and>
      (\<forall>item\<in>set items.
         map fst item = [''_id'', ''username'', ''email'', ''avatar'', ''fullName''] \<and>
         (\<exists>s\<in>set (subscriptions d). \<exists>u\<in>set (users d).
             channel s = cid \<and> user_id u = subscriber s \<and>
             map snd item = [toHexString (user_id u), username u, email u, avatar u, fullName u])) \<and>
      (\<forall>s\<in>set (subscriptions d). \<forall>u\<in>set (users d).
         channel s = cid \<and> user_id u = subscriber s \<longrightarrow> projectSubscriber u \<in> set items))"
proof -
  from assms obtain cid where cid: "castObjectId channelId = Some cid"
    by (auto simp: getUserChannelSubscribers_def split: if_splits option.splits)
  then have ne: "channelId \<noteq> []" by (rule castObjectId_nonempty)
  from assms cid ne have codes: "st = 200 \<and> code = 200"
    by (auto simp: getUserChannelSubscribers_def Let_def split: if_splits)
  from assms cid ne have items: "items = subscribersPipeline d cid"
    by (auto simp: getUserChannelSubscribers_def Let_def split: if_splits)
  have a: "\<forall>item\<in>set items.
         map fst item = [''_id'', ''username'', ''email'', ''avatar'', ''fullName''] \<and>
         (\<exists>s\<in>set (subscriptions d). \<exists>u\<in>set (users d).
             channel s = cid \<and> user_id u = subscriber s \<and>
             map snd item = [toHexString (user_id u), username u, email u, avatar u, fullName u])"
    unfolding items using subscribersPipeline_fields by blast
  have b: "\<forall>s\<in>set (subscriptions d). \<forall>u\<in>set (users d).
         channel s = cid \<and> user_id u = subscriber s \<longrightarrow> projectSubscriber u \<in> set items"
    unfolding items using subscribersPipeline_complete by blast
  from codes cid a b show ?thesis by blast
qed

theorem getUserChannelSubscribers_fields_witness:
  "getUserChannelSubscribers subscribed_db (toHexString alice) =
     Inr (200, ApiResponse 200
       [[(''_id'', ''64f1a2b3c4d5e6f708192a02''), (''username'', ''bob''),
         (''email'', ''bob@example.com''), (''avatar'', ''http://img/bob.png''),
         (''fullName'', ''Bob B'')]]
       ''Subscribers fetched successfully.'')
   \<and> projectSubscriber userBob \<in> set
       [[(''_id'', ''64f1a2b3c4d5e6f708192a02''), (''username'', ''bob''),
         (''email'', ''bob@example.com''), (''avatar'', ''http://img/bob.png''),
         (''fullName'', ''Bob B'')]]"
proof -
  have s: "\<lparr>sub_id = sid1, subscriber = bob, channel = alice\<rparr> \<in> set (subscriptions subscribed_db)"
    by (simp add: subscribed_db_def)
  have u: "userBob \<in> set (users subscribed_db)"
    by (simp add: subscribed_db_def sample_db_def)
  have ub: "user_id userBob = bob" by (simp add: userBob_def)
  from getUserChannelSubscribers_fields [OF subscribers_run] cast_alice s u ub
  have "projectSubscriber userBob \<in> set
       [[(''_id'', ''64f1a2b3c4d5e6f708192a02''), (''username'', ''bob''),
         (''email'', ''bob@example.com''), (''avatar'', ''http://img/bob.png''),
         (''fullName'', ''Bob B'')]]"
    by fastforce
  with subscribers_run show ?thesis by simp
qed

text \<open>
  C7 as stated fails: bob subscribes to alice's channel, and the entry returned for him
  carries his e-mail address next to the identifier, user name, avatar and full name.
\<close>

theorem getUserChannelSubscribers_exposes_email:
  "getUserChannelSubscribers subscribed_db (toHexString alice) =
     Inr (200, ApiResponse 200
       [[(''_id'', toHexString bob), (''username'', ''bob''),
         (''email'', ''bob@example.com''), (''avatar'', ''http://img/bob.png''),
         (''fullName'', ''Bob B'')]]
       ''Subscribers fetched successfully.'')"
proof -
  have ne: "toHexString alice \<noteq> []" by (simp add: alice_def)
  have p: "subscribersPipeline subscribed_db alice =
       [[(''_id'', toHexString bob), (''username'', ''bob''),
         (''email'', ''bob@example.com''), (''avatar'', ''http://img/bob.png''),
         (''fullName'', ''Bob B'')]]"
    by (simp add: subscribersPipeline_def lookupUnwind_def projectSubscriber_def subscribed_db_def
          sample_db_def userAlice_def userBob_def alice_def bob_def)
  show ?thesis using ne p by (simp add: getUserChannelSubscribers_def cast_alice)
qed

text \<open>
  C8 (the code at the failing input). alice is an existing user and calls
  \<open>toggleSubscription\<close> with her own id written in upper-case hexadecimal digits. The id
  is valid and casts to hers, so the channel is found; the self-subscription guard
  compares \<open>subscriberId.toString()\<close>, which is lower-case, with the string of the request,
  finds them different, and a Subscription of alice to alice is created.
\<close>

theorem toggleSubscription_self_uppercase:
  "find (\<lambda>u. user_id u = alice) (users sample_db) = Some userAlice \<and>
   castObjectId ''64F1A2B3C4D5E6F708192A01'' = Some alice \<and>
   toggleSubscription sample_db (Some alice) ''64F1A2B3C4D5E6F708192A01'' sid1 =
     (Inr (200, ApiResponse 200 (True, ''64F1A2B3C4D5E6F708192A01'') ''Subscribed successfully.''),
      sample_db\<lparr>subscriptions := [\<lparr>sub_id = sid1, subscriber = alice, channel = alice\<rparr>]\<rparr>)"
proof -
  have f: "find (\<lambda>u. user_id u = alice) (users sample_db) = Some userAlice"
    by (simp add: sample_db_def userAlice_def)
  have ne: "toHexString alice \<noteq> ''64F1A2B3C4D5E6F708192A01''"
    by (simp add: alice_def)
  have s: "subscriptions sample_db = []" by (simp add: sample_db_def)
  show ?thesis using f ne s
    by (simp add: toggleSubscription_def cast_alice_upper)
qed

end
